theory Spec2Isabelle
  imports Main
begin

section \<open>JavaScript values\<close>

text \<open>
  The payloads that travel through the adapter (query, params, body, handler results,
  response bodies) are JavaScript values. \<open>JObj\<close> lists the own properties of an object
  in enumeration order. Numbers are modelled as integers (no fractions, no NaN).
\<close>

datatype json =
    JUndefined
  | JNull
  | JBool bool
  | JNum int
  | JStr string
  | JArr "json list"
  | JObj "(string \<times> json) list"

text \<open>JavaScript truthiness, as used by \<open>a || b\<close>.\<close>

fun truthy :: "json \<Rightarrow> bool" where
  "truthy JUndefined = False"
| "truthy JNull = False"
| "truthy (JBool b) = b"
| "truthy (JNum n) = (n \<noteq> 0)"
| "truthy (JStr s) = (s \<noteq> [])"
| "truthy (JArr xs) = True"
| "truthy (JObj kvs) = True"

text \<open>\<open>a || b\<close> on values.\<close>

definition orElse :: "json \<Rightarrow> json \<Rightarrow> json" where
  "orElse a b = (if truthy a then a else b)"

text \<open>\<open>obj[k]\<close> on the properties of an object: \<open>undefined\<close> when the key is missing.\<close>

definition getProp :: "(string \<times> json) list \<Rightarrow> string \<Rightarrow> json" where
  "getProp kvs k = (case map_of kvs k of Some v \<Rightarrow> v | None \<Rightarrow> JUndefined)"

text \<open>
  An optional property of an options object: the key is missing, the key is there with
  the value \<open>undefined\<close>, or the key holds a value. \<open>'k' in obj\<close> tells the first from
  the other two; \<open>obj.k ?? d\<close> and \<open>obj.k || d\<close> do not.
\<close>

datatype 'a optional = Absent | Undefined | Value 'a

text \<open>\<open>obj.k\<close>: the value read from the property (\<open>None\<close> is \<open>undefined\<close>).\<close>

fun readProp :: "'a optional \<Rightarrow> 'a option" where
  "readProp Absent = None"
| "readProp Undefined = None"
| "readProp (Value v) = Some v"

text \<open>\<open>'k' in obj\<close>.\<close>

fun hasProp :: "'a optional \<Rightarrow> bool" where
  "hasProp Absent = False"
| "hasProp Undefined = True"
| "hasProp (Value v) = True"

text \<open>\<open>a ?? b\<close> where \<open>a\<close> may be \<open>undefined\<close>.\<close>

fun nullish :: "'a option \<Rightarrow> 'a option \<Rightarrow> 'a option" where
  "nullish (Some a) b = Some a"
| "nullish None b = b"

text \<open>Truthiness of an optional boolean (\<open>undefined\<close> is falsy).\<close>

fun isTrue :: "bool option \<Rightarrow> bool" where
  "isTrue (Some b) = b"
| "isTrue None = False"

subsection \<open>Strings\<close>

fun startsWith :: "string \<Rightarrow> string \<Rightarrow> bool" where
  "startsWith s [] = True"
| "startsWith [] (c # cs) = False"
| "startsWith (x # xs) (c # cs) = (x = c \<and> startsWith xs cs)"

text \<open>\<open>s.includes(sub)\<close>.\<close>

fun strIncludes :: "string \<Rightarrow> string \<Rightarrow> bool" where
  "strIncludes [] sub = (sub = [])"
| "strIncludes (x # xs) sub = (startsWith (x # xs) sub \<or> strIncludes xs sub)"

text \<open>\<open>parts.join(sep)\<close>.\<close>

fun join :: "string \<Rightarrow> string list \<Rightarrow> string" where
  "join sep [] = []"
| "join sep [p] = p"
| "join sep (p # q # ps) = p @ sep @ join sep (q # ps)"

definition digitChar :: "nat \<Rightarrow> char" where
  "digitChar d = char_of (48 + d)"

text \<open>\<open>String(n)\<close> for a non-negative integer: its decimal digits.\<close>

function showNat :: "nat \<Rightarrow> string" where
  "showNat n = (if n < 10 then [digitChar n] else showNat (n div 10) @ [digitChar (n mod 10)])"
  by pat_completeness auto
termination
  by (relation "measure (\<lambda>n. n)") auto

declare showNat.simps [simp del]

section \<open>Errors and the validator interface\<close>

text \<open>
  What a \<open>throw\<close> can carry: a \<open>ValidationError\<close> (message, details), any other
  \<open>Error\<close> instance (message), or a value that is no \<open>Error\<close> at all.
\<close>

datatype thrown =
    ValidationError string "json list"
  | Error string
  | Thrown json

text \<open>
  An issue reported by the validator library: the path to the offending field (object
  keys and array indices) and a message.
\<close>

datatype pathElem = Key string | Index nat

record issue =
  issuePath :: "pathElem list"
  issueMessage :: string

fun showPathElem :: "pathElem \<Rightarrow> string" where
  "showPathElem (Key k) = k"
| "showPathElem (Index i) = showNat i"

text \<open>
  \<open>safeParse\<close>: either the issues (\<open>success: false\<close>), in the order the library reports
  them, or the parsed data.
\<close>

type_synonym validator = "json \<Rightarrow> issue list + json"

text \<open>
  A schema object as \<open>validateData\<close> uses it: \<open>strictMode\<close> is \<open>None\<close> when the object
  has no \<open>strict\<close> member, otherwise the \<open>safeParse\<close> of \<open>schema.strict()\<close>;
  \<open>passthroughMode\<close> is \<open>None\<close> when \<open>schema.passthrough\<close> is not a function,
  otherwise the \<open>safeParse\<close> of \<open>schema.passthrough()\<close>. The validator library is not
  part of the repository, so both are parameters.
\<close>

record zodSchema =
  strictMode :: "validator option"
  passthroughMode :: "validator option"

section \<open>Configuration\<close>

text \<open>The \<open>config\<close> argument of \<open>createTypedApp\<close>.\<close>

record TypedAppConfig =
  optStrict :: "bool optional"
  optValidateResponses :: "bool optional"
  optLogValidationErrors :: "bool optional"

text \<open>The resolved \<open>appConfig\<close>; a field is \<open>None\<close> when it ends up \<open>undefined\<close>.\<close>

record appConfig =
  strict :: "bool option"
  validateResponses :: "bool option"
  logValidationErrors :: "bool option"

text \<open>
  The process environment and the HTTP library: \<open>nodeEnv\<close> is \<open>process.env.NODE_ENV\<close>;
  \<open>sendThrows data\<close> is the error that the library's \<open>res.send\<close> throws on \<open>data\<close>, if
  it throws (for instance a payload that cannot be serialised). The HTTP library is not
  part of the repository.
\<close>

record env =
  nodeEnv :: "string option"
  sendThrows :: "json \<Rightarrow> thrown option"

definition isDevelopment :: "env \<Rightarrow> bool" where
  "isDevelopment e = (nodeEnv e = Some ''development'')"

text \<open>
  One field of \<open>appConfig\<close>: \<open>config.k ?? dflt\<close>, then overwritten by the spread
  \<open>...config\<close> when the key is present in \<open>config\<close> (also with the value \<open>undefined\<close>).
\<close>

fun resolveOption :: "bool optional \<Rightarrow> bool \<Rightarrow> bool option" where
  "resolveOption Absent dflt = Some dflt"
| "resolveOption Undefined dflt = None"
| "resolveOption (Value b) dflt = Some b"

definition createAppConfig :: "env \<Rightarrow> TypedAppConfig \<Rightarrow> appConfig" where
  "createAppConfig e config =
     \<lparr> strict = resolveOption (optStrict config) (isDevelopment e),
       validateResponses = resolveOption (optValidateResponses config) (isDevelopment e),
       logValidationErrors = resolveOption (optLogValidationErrors config) True \<rparr>"

section \<open>Console\<close>

datatype logEntry =
    WarnValidationFailed string json "json list" "bool option"
  | ErrorResponseValidationFailed nat json thrown
  | ErrorHeadersAlreadySent thrown
  | ErrorFailedToSend thrown

section \<open>Schema Validator\<close>

definition issueDetail :: "json \<Rightarrow> issue \<Rightarrow> json" where
  "issueDetail data i =
     JObj [(''path'', JStr (join ''.'' (map showPathElem (issuePath i)))),
           (''message'', JStr (issueMessage i)),
           (''value'', data)]"

text \<open>
  The schema that \<open>validateData\<close> parses with:
  \<open>shouldBeStrict && 'strict' in schema ? schema.strict() : schema.passthrough()\<close>.
  Calling a member that is not there throws a \<open>TypeError\<close>.
\<close>

definition validationSchema :: "bool option \<Rightarrow> zodSchema \<Rightarrow> thrown + validator" where
  "validationSchema shouldBeStrict schema =
     (if isTrue shouldBeStrict \<and> strictMode schema \<noteq> None
      then (case strictMode schema of
              Some v \<Rightarrow> Inr v
            | None \<Rightarrow> Inl (Error ''schema.strict is not a function''))
      else (case passthroughMode schema of
              Some v \<Rightarrow> Inr v
            | None \<Rightarrow> Inl (Error ''schema.passthrough is not a function'')))"

text \<open>
  \<open>validateData\<close>. The result is the parsed data or what is thrown, together with the
  console lines written.
\<close>

definition validateData ::
  "appConfig \<Rightarrow> json \<Rightarrow> zodSchema \<Rightarrow> string \<Rightarrow> bool option \<Rightarrow> (thrown + json) \<times> logEntry list" where
  "validateData ac data schema context strictArg =
     (let shouldBeStrict = nullish strictArg (strict ac)
      in case validationSchema shouldBeStrict schema of
           Inl e \<Rightarrow> (Inl e, [])
         | Inr safeParse \<Rightarrow>
             (case safeParse data of
                Inr parsed \<Rightarrow> (Inr parsed, [])
              | Inl issues \<Rightarrow>
                  (let details = map (issueDetail data) issues
                   in (Inl (ValidationError (''Validation failed for '' @ context) details),
                       if isTrue (logValidationErrors ac)
                       then [WarnValidationFailed context data details shouldBeStrict]
                       else []))))"

definition responseContext :: "nat \<Rightarrow> string" where
  "responseContext statusCode = ''response ('' @ showNat statusCode @ '')''"

text \<open>\<open>validateResponse\<close>.\<close>

definition validateResponse ::
  "env \<Rightarrow> appConfig \<Rightarrow> json \<Rightarrow> zodSchema \<Rightarrow> nat \<Rightarrow> bool option \<Rightarrow> (thrown + json) \<times> logEntry list" where
  "validateResponse e ac data schema statusCode strictArg =
     (case validateData ac data schema (responseContext statusCode) strictArg of
        (Inr parsed, logs) \<Rightarrow> (Inr parsed, logs)
      | (Inl err, logs) \<Rightarrow>
          (let logs' = logs @ (if isTrue (logValidationErrors ac)
                               then [ErrorResponseValidationFailed statusCode data err]
                               else [])
           in if isDevelopment e then (Inl err, logs') else (Inr data, logs')))"

section \<open>Requests, responses and route configuration\<close>

text \<open>
  The request as the adapter reads it: \<open>req.query\<close>, \<open>req.params\<close>, \<open>req.body\<close>
  (\<open>JUndefined\<close> when absent).
\<close>

record request =
  reqQuery :: json
  reqParams :: json
  reqBody :: json

text \<open>
  What has been handed to the HTTP library for the client: a call \<open>res.send(data, code,
  headers)\<close> or a call \<open>res.end(data)\<close>.
\<close>

datatype outgoing =
    Send json nat "(string \<times> string) list"
  | End json

text \<open>
  Modelled from the spec: the response object of the HTTP library, which is not part of
  the repository. It exposes \<open>statusCode\<close> (mutable; \<open>None\<close> is \<open>undefined\<close>), the
  \<open>headersSent\<close> flag, \<open>setHeader\<close> and \<open>send(body, status, headers)\<close>. \<open>headers\<close>
  holds what \<open>setHeader\<close> has set, \<open>wire\<close> what has been handed over so far, oldest
  first.
\<close>

record response =
  statusCode :: "nat option"
  headersSent :: bool
  headers :: "(string \<times> string) list"
  wire :: "outgoing list"

text \<open>
  Modelled from the spec: \<open>res.send(data, code, headers)\<close> of the HTTP library. It
  throws what \<open>sendThrows\<close> says, leaving the response as it was, or hands the payload
  over with the status code and marks the headers as sent.
\<close>

definition send ::
  "env \<Rightarrow> json \<Rightarrow> nat \<Rightarrow> (string \<times> string) list \<Rightarrow> response \<Rightarrow> thrown + response" where
  "send e data code hdrs res =
     (case sendThrows e data of
        Some err \<Rightarrow> Inl err
      | None \<Rightarrow> Inr (res\<lparr> statusCode := Some code, headersSent := True,
                           wire := wire res @ [Send data code hdrs] \<rparr>))"

text \<open>
  Modelled from the spec: \<open>res.setHeader(k, v)\<close> and \<open>res.end(data)\<close> of the HTTP
  library, taken to succeed.
\<close>

definition setHeader :: "string \<Rightarrow> string \<Rightarrow> response \<Rightarrow> response" where
  "setHeader k v res = res\<lparr> headers := headers res @ [(k, v)] \<rparr>"

definition endResponse :: "json \<Rightarrow> response \<Rightarrow> response" where
  "endResponse data res = res\<lparr> headersSent := True, wire := wire res @ [End data] \<rparr>"

definition jsonContentType :: "(string \<times> string) list" where
  "jsonContentType = [(''Content-Type'', ''application/json'')]"

text \<open>One entry of \<open>schema.responses\<close>.\<close>

record responseConfig =
  responseSchema :: "zodSchema option"
  responseDescription :: "string option"

text \<open>
  \<open>RouteSchema\<close>. \<open>responses\<close> lists the entries of the mapping in enumeration order,
  keyed by the status code as a property name.
\<close>

record RouteSchema =
  query :: "zodSchema option"
  params :: "zodSchema option"
  body :: "zodSchema option"
  responses :: "(string \<times> responseConfig) list option"

record RouteMetadata =
  summary :: "string option"
  description :: "string option"
  tags :: "string list option"
  operationId :: "string option"
  deprecated :: "bool option"

text \<open>The context object passed to the business handler.\<close>

record handlerContext =
  ctxQuery :: json
  ctxParams :: json
  ctxBody :: json
  ctxReq :: request

text \<open>
  The business handler: it may use the response object, and it returns a value
  (\<open>JUndefined\<close> when it returns nothing) or throws.
\<close>

type_synonym routeHandler = "handlerContext \<Rightarrow> response \<Rightarrow> (thrown + json) \<times> response"

text \<open>\<open>RouteConfig\<close> (the middlewares only go to the HTTP library and are left out).\<close>

record RouteConfig =
  schema :: "RouteSchema option"
  metadata :: "RouteMetadata option"
  strictOverride :: "bool optional"
  validateResponseOverride :: "bool optional"
  handler :: routeHandler

section \<open>Route Handler Adapter\<close>

text \<open>\<open>'strict' in config ? config.strict : undefined\<close>.\<close>

definition routeStrict :: "RouteConfig \<Rightarrow> bool option" where
  "routeStrict config =
     (if hasProp (strictOverride config) then readProp (strictOverride config) else None)"

text \<open>\<open>'validateResponse' in config ? config.validateResponse : appConfig.validateResponses\<close>.\<close>

definition routeValidateResponse :: "appConfig \<Rightarrow> RouteConfig \<Rightarrow> bool option" where
  "routeValidateResponse ac config =
     (if hasProp (validateResponseOverride config)
      then readProp (validateResponseOverride config)
      else validateResponses ac)"

text \<open>\<open>config.schema?.k\<close> for \<open>k\<close> one of \<open>query\<close>, \<open>params\<close>, \<open>body\<close>.\<close>

definition schemaFor :: "(RouteSchema \<Rightarrow> zodSchema option) \<Rightarrow> RouteConfig \<Rightarrow> zodSchema option" where
  "schemaFor k config = (case schema config of None \<Rightarrow> None | Some s \<Rightarrow> k s)"

text \<open>
  The expression that the adapter evaluates for each of the three inputs:
  \<open>s ? validateData(raw || {}, s, context, routeStrict) : (raw || {})\<close>.
\<close>

definition validateInput ::
  "appConfig \<Rightarrow> zodSchema option \<Rightarrow> json \<Rightarrow> string \<Rightarrow> bool option \<Rightarrow> (thrown + json) \<times> logEntry list" where
  "validateInput ac s raw context strictArg =
     (case s of
        Some sch \<Rightarrow> validateData ac (orElse raw (JObj [])) sch context strictArg
      | None \<Rightarrow> (Inr (orElse raw (JObj [])), []))"

text \<open>
  The first half of the \<open>try\<close> block: the three inputs are validated and the business
  handler is awaited. The result is what the handler returned, or what was thrown up to
  here, with the response object and the console lines at that moment.
\<close>

definition handlerPhase ::
  "appConfig \<Rightarrow> RouteConfig \<Rightarrow> request \<Rightarrow> response \<Rightarrow> (thrown + json) \<times> response \<times> logEntry list" where
  "handlerPhase ac config req res =
     (case validateInput ac (schemaFor query config) (reqQuery req) ''query'' (routeStrict config) of
        (Inl e, l1) \<Rightarrow> (Inl e, res, l1)
      | (Inr q, l1) \<Rightarrow>
     (case validateInput ac (schemaFor params config) (reqParams req) ''params'' (routeStrict config) of
        (Inl e, l2) \<Rightarrow> (Inl e, res, l1 @ l2)
      | (Inr p, l2) \<Rightarrow>
     (case validateInput ac (schemaFor body config) (reqBody req) ''body'' (routeStrict config) of
        (Inl e, l3) \<Rightarrow> (Inl e, res, l1 @ l2 @ l3)
      | (Inr b, l3) \<Rightarrow>
     (case handler config \<lparr> ctxQuery = q, ctxParams = p, ctxBody = b, ctxReq = req \<rparr> res of
        (result, res') \<Rightarrow> (result, res', l1 @ l2 @ l3)))))"

text \<open>\<open>config.schema.responses[200]?.schema\<close>, when \<open>config.schema?.responses\<close> is there.\<close>

definition responseSchema200 :: "RouteConfig \<Rightarrow> zodSchema option" where
  "responseSchema200 config =
     (case schema config of
        None \<Rightarrow> None
      | Some s \<Rightarrow>
          (case responses s of
             None \<Rightarrow> None
           | Some rs \<Rightarrow>
               (case map_of rs ''200'' of
                  None \<Rightarrow> None
                | Some rc \<Rightarrow> responseSchema rc)))"

text \<open>\<open>res.statusCode || 200\<close>.\<close>

definition statusOr200 :: "response \<Rightarrow> nat" where
  "statusOr200 res = (case statusCode res of None \<Rightarrow> 200 | Some c \<Rightarrow> if c = 0 then 200 else c)"

text \<open>
  The response check inside the \<open>try\<close> block:
  \<open>routeValidateResponse && config.schema?.responses\<close>, then the schema of status 200.
\<close>

definition checkResponse ::
  "env \<Rightarrow> appConfig \<Rightarrow> RouteConfig \<Rightarrow> json \<Rightarrow> (thrown + json) \<times> logEntry list" where
  "checkResponse e ac config responseData =
     (if isTrue (routeValidateResponse ac config) then
        (case responseSchema200 config of
           Some rs \<Rightarrow> validateResponse e ac responseData rs 200 (routeStrict config)
         | None \<Rightarrow> (Inr responseData, []))
      else (Inr responseData, []))"

text \<open>
  The second half of the \<open>try\<close> block, after the handler has returned \<open>result\<close>: the
  response is sent unless the headers have been sent already.
\<close>

definition sendPhase ::
  "env \<Rightarrow> appConfig \<Rightarrow> RouteConfig \<Rightarrow> json \<Rightarrow> response \<Rightarrow> (thrown + unit) \<times> response \<times> logEntry list" where
  "sendPhase e ac config result res =
     (if \<not> headersSent res then
        (let responseData = (if result = JUndefined then JObj [] else result)
         in case checkResponse e ac config responseData of
              (Inl err, logs) \<Rightarrow> (Inl err, res, logs)
            | (Inr responseData', logs) \<Rightarrow>
                (case send e responseData' (statusOr200 res) jsonContentType res of
                   Inl err \<Rightarrow> (Inl err, res, logs)
                 | Inr res' \<Rightarrow> (Inr (), res', logs)))
      else (Inr (), res, []))"

text \<open>The whole \<open>try\<close> block.\<close>

definition tryBlock ::
  "env \<Rightarrow> appConfig \<Rightarrow> RouteConfig \<Rightarrow> request \<Rightarrow> response \<Rightarrow> (thrown + unit) \<times> response \<times> logEntry list" where
  "tryBlock e ac config req res =
     (case handlerPhase ac config req res of
        (Inl err, res1, l1) \<Rightarrow> (Inl err, res1, l1)
      | (Inr result, res1, l1) \<Rightarrow>
          (case sendPhase e ac config result res1 of
             (outcome, res2, l2) \<Rightarrow> (outcome, res2, l1 @ l2)))"

text \<open>\<open>error instanceof ValidationError\<close>.\<close>

fun isValidationError :: "thrown \<Rightarrow> bool" where
  "isValidationError (ValidationError msg details) = True"
| "isValidationError (Error msg) = False"
| "isValidationError (Thrown v) = False"

text \<open>\<open>error instanceof Error ? error.message : 'An unexpected error occurred'\<close>.\<close>

fun errorMessage :: "thrown \<Rightarrow> string" where
  "errorMessage (ValidationError msg details) = msg"
| "errorMessage (Error msg) = msg"
| "errorMessage (Thrown v) = ''An unexpected error occurred''"

definition validationBody :: "string \<Rightarrow> string \<Rightarrow> json list \<Rightarrow> json" where
  "validationBody title msg details =
     JObj [(''error'', JStr title), (''message'', JStr msg), (''details'', JArr details)]"

definition internalErrorBody :: "thrown \<Rightarrow> json" where
  "internalErrorBody err =
     JObj [(''error'', JStr ''Internal Server Error''), (''message'', JStr (errorMessage err))]"

text \<open>
  The \<open>catch\<close> block. The result is what escapes from the adapter (an error thrown by
  \<open>res.send\<close> outside the inner \<open>try\<close>), the response object and the console lines.
\<close>

definition catchBlock :: "env \<Rightarrow> thrown \<Rightarrow> response \<Rightarrow> thrown option \<times> response \<times> logEntry list" where
  "catchBlock e err res =
     (if headersSent res then (None, res, [ErrorHeadersAlreadySent err])
      else
        (case err of
           ValidationError msg details \<Rightarrow>
             (if strIncludes msg ''response ('' then
                (case send e (validationBody ''Response validation failed'' msg details) 500
                        jsonContentType res of
                   Inl sendError \<Rightarrow> (Some sendError, res, [])
                 | Inr res' \<Rightarrow> (None, res', []))
              else
                (case send e (validationBody ''Validation failed'' msg details) 400
                        jsonContentType res of
                   Inl sendError \<Rightarrow> (Some sendError, res, [])
                 | Inr res' \<Rightarrow> (None, res', [])))
         | _ \<Rightarrow>
             (if \<not> headersSent res then
                (case send e (internalErrorBody err) 500 jsonContentType res of
                   Inr res' \<Rightarrow> (None, res', [])
                 | Inl sendError \<Rightarrow>
                     (let res1 = (if statusCode res = None then res\<lparr> statusCode := Some 500 \<rparr>
                                  else res)
                      in if \<not> headersSent res1
                         then (None,
                               endResponse (internalErrorBody err)
                                 (setHeader ''Content-Type'' ''application/json'' res1),
                               [ErrorFailedToSend sendError])
                         else (None, res1, [ErrorFailedToSend sendError])))
              else (None, res, []))))"

text \<open>The handler that \<open>createValidatedHandler\<close> returns, applied to a request.\<close>

definition createValidatedHandler ::
  "env \<Rightarrow> appConfig \<Rightarrow> RouteConfig \<Rightarrow> request \<Rightarrow> response \<Rightarrow> thrown option \<times> response \<times> logEntry list" where
  "createValidatedHandler e ac config req res =
     (case tryBlock e ac config req res of
        (Inr u, res1, l1) \<Rightarrow> (None, res1, l1)
      | (Inl err, res1, l1) \<Rightarrow>
          (case catchBlock e err res1 of (escaped, res2, l2) \<Rightarrow> (escaped, res2, l1 @ l2)))"

subsection \<open>Strictness in the spec's words\<close>


section \<open>Route Registry and App Facade\<close>

definition toUpperChar :: "char \<Rightarrow> char" where
  "toUpperChar c =
     (let n = (of_char c :: nat) in if 97 \<le> n \<and> n \<le> 122 then char_of (n - 32) else c)"

definition toLowerChar :: "char \<Rightarrow> char" where
  "toLowerChar c =
     (let n = (of_char c :: nat) in if 65 \<le> n \<and> n \<le> 90 then char_of (n + 32) else c)"

text \<open>\<open>s.toUpperCase()\<close> and \<open>s.toLowerCase()\<close> on ASCII text.\<close>

definition toUpperCase :: "string \<Rightarrow> string" where
  "toUpperCase s = map toUpperChar s"

definition toLowerCase :: "string \<Rightarrow> string" where
  "toLowerCase s = map toLowerChar s"

text \<open>One entry of the \<open>routes\<close> array (\<open>routePath\<close> is \<open>None\<close> when it is \<open>undefined\<close>).\<close>

record routeEntry =
  routeMethod :: string
  routePath :: "string option"
  routeSchema :: "RouteSchema option"
  routeMetadata :: "RouteMetadata option"

text \<open>The \<open>path\<close> argument of a registration: \<open>string | string[]\<close>.\<close>

datatype pathArg = OnePath string | PathArray "string list"

text \<open>\<open>Array.isArray(path) ? path[0] : path\<close>.\<close>

fun pathForDoc :: "pathArg \<Rightarrow> string option" where
  "pathForDoc (OnePath p) = Some p"
| "pathForDoc (PathArray []) = None"
| "pathForDoc (PathArray (p # ps)) = Some p"

text \<open>
  The state behind a typed app: the \<open>routes\<close> array of the closure, and the calls made
  on the underlying HTTP service (method name, paths, route configuration), oldest first.
  The call on the service, which comes after the entry is recorded, is taken to succeed.
\<close>

record typedApp =
  routes :: "routeEntry list"
  serviceCalls :: "(string \<times> pathArg \<times> RouteConfig) list"

definition emptyApp :: typedApp where
  "emptyApp = \<lparr> routes = [], serviceCalls = [] \<rparr>"

definition registerRoute :: "string \<Rightarrow> pathArg \<Rightarrow> RouteConfig \<Rightarrow> typedApp \<Rightarrow> typedApp" where
  "registerRoute method path config app =
     app\<lparr> routes := routes app @
                       [\<lparr> routeMethod = toUpperCase method,
                          routePath = pathForDoc path,
                          routeSchema = schema config,
                          routeMetadata = metadata config \<rparr>],
          serviceCalls := serviceCalls app @ [(method, path, config)] \<rparr>"

definition getRoutes :: "typedApp \<Rightarrow> routeEntry list" where
  "getRoutes app = routes app"

text \<open>The registration methods of the facade.\<close>

definition appGet :: "pathArg \<Rightarrow> RouteConfig \<Rightarrow> typedApp \<Rightarrow> typedApp" where
  "appGet path config app = registerRoute ''get'' path config app"

definition appPost :: "pathArg \<Rightarrow> RouteConfig \<Rightarrow> typedApp \<Rightarrow> typedApp" where
  "appPost path config app = registerRoute ''post'' path config app"

definition appPut :: "pathArg \<Rightarrow> RouteConfig \<Rightarrow> typedApp \<Rightarrow> typedApp" where
  "appPut path config app = registerRoute ''put'' path config app"

definition appPatch :: "pathArg \<Rightarrow> RouteConfig \<Rightarrow> typedApp \<Rightarrow> typedApp" where
  "appPatch path config app = registerRoute ''patch'' path config app"

definition appDelete :: "pathArg \<Rightarrow> RouteConfig \<Rightarrow> typedApp \<Rightarrow> typedApp" where
  "appDelete path config app = registerRoute ''delete'' path config app"

definition appHead :: "pathArg \<Rightarrow> RouteConfig \<Rightarrow> typedApp \<Rightarrow> typedApp" where
  "appHead path config app = registerRoute ''head'' path config app"

definition appOptions :: "pathArg \<Rightarrow> RouteConfig \<Rightarrow> typedApp \<Rightarrow> typedApp" where
  "appOptions path config app = registerRoute ''options'' path config app"

definition appTrace :: "pathArg \<Rightarrow> RouteConfig \<Rightarrow> typedApp \<Rightarrow> typedApp" where
  "appTrace path config app = registerRoute ''trace'' path config app"

definition appAll :: "pathArg \<Rightarrow> RouteConfig \<Rightarrow> typedApp \<Rightarrow> typedApp" where
  "appAll path config app = registerRoute ''all'' path config app"

text \<open>The entry that a registration records.\<close>

definition entryOf :: "string \<times> pathArg \<times> RouteConfig \<Rightarrow> routeEntry" where
  "entryOf reg =
     (case reg of (method, path, config) \<Rightarrow>
        \<lparr> routeMethod = toUpperCase method, routePath = pathForDoc path,
          routeSchema = schema config, routeMetadata = metadata config \<rparr>)"

text \<open>A sequence of registrations, in order.\<close>

fun registerAll :: "(string \<times> pathArg \<times> RouteConfig) list \<Rightarrow> typedApp \<Rightarrow> typedApp" where
  "registerAll [] app = app"
| "registerAll ((method, path, config) # regs) app =
     registerAll regs (registerRoute method path config app)"

section \<open>The validator library's object schema\<close>

text \<open>
  Modelled from the spec: the object schema of the validator library (zod), which is not
  part of the repository. An object schema declares a list of fields, each with its own
  validator. In "reject unknown fields" mode a payload with a field that the schema does
  not declare is rejected; in "pass through unknown fields" mode undeclared fields are
  retained in the output, not discarded. A declared field that the payload lacks is
  validated as \<open>undefined\<close>. The issues of a field carry the field's name in front of
  their path.
\<close>

datatype unknownKeys = RejectUnknown | PassThroughUnknown

definition fieldIssues :: "(string \<times> json) list \<Rightarrow> string \<times> validator \<Rightarrow> issue list" where
  "fieldIssues kvs f =
     (case snd f (getProp kvs (fst f)) of
        Inl issues \<Rightarrow> map (\<lambda>i. i\<lparr> issuePath := Key (fst f) # issuePath i \<rparr>) issues
      | Inr v \<Rightarrow> [])"

definition fieldOutput :: "(string \<times> json) list \<Rightarrow> string \<times> validator \<Rightarrow> (string \<times> json) list" where
  "fieldOutput kvs f =
     (case snd f (getProp kvs (fst f)) of
        Inl issues \<Rightarrow> []
      | Inr v \<Rightarrow> if v = JUndefined \<and> map_of kvs (fst f) = None then [] else [(fst f, v)])"

definition unknownFields :: "(string \<times> validator) list \<Rightarrow> (string \<times> json) list \<Rightarrow> (string \<times> json) list" where
  "unknownFields shape kvs = filter (\<lambda>kv. fst kv \<notin> set (map fst shape)) kvs"

definition unrecognizedKeys :: "string list \<Rightarrow> issue" where
  "unrecognizedKeys ks =
     \<lparr> issuePath = [],
       issueMessage = ''Unrecognized key(s) in object: '' @
                      join '', '' (map (\<lambda>k. [CHR 0x27] @ k @ [CHR 0x27]) ks) \<rparr>"

definition parseObject :: "unknownKeys \<Rightarrow> (string \<times> validator) list \<Rightarrow> validator" where
  "parseObject mode shape data =
     (case data of
        JObj kvs \<Rightarrow>
          (let declared = concat (map (fieldIssues kvs) shape);
               extra = unknownFields shape kvs;
               issues = (case mode of
                           RejectUnknown \<Rightarrow>
                             declared @ (if extra = [] then []
                                         else [unrecognizedKeys (map fst extra)])
                         | PassThroughUnknown \<Rightarrow> declared);
               output = concat (map (fieldOutput kvs) shape) @
                        (case mode of RejectUnknown \<Rightarrow> [] | PassThroughUnknown \<Rightarrow> extra)
           in if issues = [] then Inr (JObj output) else Inl issues)
      | _ \<Rightarrow> Inl [\<lparr> issuePath = [], issueMessage = ''Expected object'' \<rparr>])"

text \<open>An object schema offers both modes.\<close>

definition zodObject :: "(string \<times> validator) list \<Rightarrow> zodSchema" where
  "zodObject shape =
     \<lparr> strictMode = Some (parseObject RejectUnknown shape),
       passthroughMode = Some (parseObject PassThroughUnknown shape) \<rparr>"

text \<open>
  Modelled from the spec: two field validators of the validator library, a required string
  and a required number.
\<close>

definition zodString :: validator where
  "zodString v =
     (case v of
        JStr s \<Rightarrow> Inr v
      | _ \<Rightarrow> Inl [\<lparr> issuePath = [], issueMessage = ''Expected string'' \<rparr>])"


section \<open>OpenAPI Generator\<close>

text \<open>
  \<open>path.replace(/:([^/]+)/g, '{$1}')\<close>: scanning from the left, a colon that is followed
  by at least one character other than \<open>/\<close> is replaced, together with the longest run
  of such characters after it, by that run in braces.
\<close>

definition notSlash :: "char \<Rightarrow> bool" where
  "notSlash c = (c \<noteq> CHR ''/'')"

function replaceParams :: "string \<Rightarrow> string" where
  "replaceParams [] = []"
| "replaceParams (c # cs) =
     (if c = CHR '':'' \<and> takeWhile notSlash cs \<noteq> []
      then ''{'' @ takeWhile notSlash cs @ ''}'' @ replaceParams (dropWhile notSlash cs)
      else c # replaceParams cs)"
  by pat_completeness auto
termination
  by (relation "measure length") (auto simp: length_dropWhile_le less_Suc_eq_le)

text \<open>\<open>s.replace(/[^a-zA-Z0-9]/g, '')\<close>.\<close>

definition isAlphaNumeric :: "char \<Rightarrow> bool" where
  "isAlphaNumeric c =
     (let n = (of_char c :: nat)
      in (48 \<le> n \<and> n \<le> 57) \<or> (65 \<le> n \<and> n \<le> 90) \<or> (97 \<le> n \<and> n \<le> 122))"

definition keepAlphaNumeric :: "string \<Rightarrow> string" where
  "keepAlphaNumeric s = filter isAlphaNumeric s"

text \<open>\<open>a || b\<close> on a string that may be \<open>undefined\<close>: the empty string is falsy.\<close>

definition stringOr :: "string option \<Rightarrow> string \<Rightarrow> string" where
  "stringOr a b = (case a of None \<Rightarrow> b | Some t \<Rightarrow> if t = [] then b else t)"

text \<open>\<open>route.metadata?.k\<close>.\<close>

definition metadataField :: "(RouteMetadata \<Rightarrow> 'a option) \<Rightarrow> routeEntry \<Rightarrow> 'a option" where
  "metadataField k route = (case routeMetadata route of None \<Rightarrow> None | Some m \<Rightarrow> k m)"

text \<open>
  \<open>zodToJsonSchema(schema, ...)\<close> belongs to a library outside the repository: the
  generator takes it as a parameter. It returns a JSON-Schema value or throws.
\<close>

type_synonym converter = "zodSchema \<Rightarrow> thrown + json"

text \<open>A parameter descriptor: \<open>{name, in, required, schema}\<close>.\<close>

record parameter =
  paramName :: string
  paramIn :: string
  paramRequired :: bool
  paramSchema :: json

text \<open>
  A response descriptor: the description and, when there is a content block, the schema
  under \<open>content['application/json'].schema\<close>.
\<close>

record responseDescriptor =
  descriptorDescription :: string
  descriptorSchema :: "json option"

text \<open>
  An operation object. \<open>opDeprecated\<close> tells whether \<open>deprecated: true\<close> was set;
  \<open>opRequestBody\<close> is the schema of the request body (\<open>required: true\<close>, content
  \<open>application/json\<close>) when there is one; \<open>opParameters\<close> is \<open>None\<close> while
  \<open>operation.parameters\<close> is undefined; \<open>opResponses\<close> maps status codes to descriptors.
\<close>

record operation =
  opOperationId :: string
  opSummary :: string
  opDescription :: string
  opTags :: "string list"
  opDeprecated :: bool
  opRequestBody :: "json option"
  opParameters :: "parameter list option"
  opResponses :: "string \<rightharpoonup> responseDescriptor"

datatype generatorWarning =
    FailedBodySchema string string thrown
  | FailedQuerySchema string string thrown
  | FailedParamsSchema string string thrown
  | FailedResponseSchema string string string thrown

text \<open>\<open>Object.entries(v)\<close>.\<close>

fun entriesOf :: "json \<Rightarrow> (string \<times> json) list" where
  "entriesOf (JObj kvs) = kvs"
| "entriesOf (JArr xs) = zip (map showNat [0..<length xs]) xs"
| "entriesOf (JStr t) = zip (map showNat [0..<length t]) (map (\<lambda>c. JStr [c]) t)"
| "entriesOf v = []"

text \<open>
  \<open>js && 'properties' in js\<close>: false for a falsy value, a \<open>TypeError\<close> for a truthy
  value that is no object.
\<close>

fun hasProperties :: "json \<Rightarrow> thrown + bool" where
  "hasProperties (JObj kvs) = Inr (map_of kvs ''properties'' \<noteq> None)"
| "hasProperties (JArr xs) = Inr False"
| "hasProperties v =
     (if truthy v then Inl (Error ''Cannot use in operator to search for properties'')
      else Inr False)"

text \<open>\<open>js.k\<close> on a value for which \<open>hasProperties\<close> holds.\<close>

fun propertyOf :: "json \<Rightarrow> string \<Rightarrow> json" where
  "propertyOf (JObj kvs) k = getProp kvs k"
| "propertyOf v k = JUndefined"

text \<open>\<open>Array.isArray(required) ? required.includes(name) : false\<close>.\<close>

fun requiredIncludes :: "json \<Rightarrow> string \<Rightarrow> bool" where
  "requiredIncludes (JArr xs) name = (JStr name \<in> set xs)"
| "requiredIncludes v name = False"

text \<open>The descriptors of the query parameters of a converted query schema.\<close>

definition queryDescriptors :: "json \<Rightarrow> parameter list" where
  "queryDescriptors js =
     (let required = orElse (propertyOf js ''required'') (JArr [])
      in map (\<lambda>entry. \<lparr> paramName = fst entry, paramIn = ''query'',
                          paramRequired = requiredIncludes required (fst entry),
                          paramSchema = snd entry \<rparr>)
             (entriesOf (orElse (propertyOf js ''properties'') (JObj []))))"

text \<open>The descriptors of the path parameters of a converted params schema.\<close>

definition pathDescriptors :: "json \<Rightarrow> parameter list" where
  "pathDescriptors js =
     map (\<lambda>entry. \<lparr> paramName = fst entry, paramIn = ''path'', paramRequired = True,
                       paramSchema = snd entry \<rparr>)
         (entriesOf (orElse (propertyOf js ''properties'') (JObj [])))"

text \<open>"Add request body if present".\<close>

definition addRequestBody ::
  "converter \<Rightarrow> string \<Rightarrow> string \<Rightarrow> RouteSchema \<Rightarrow> operation \<Rightarrow> operation \<times> generatorWarning list" where
  "addRequestBody conv method path sch op =
     (case body sch of
        None \<Rightarrow> (op, [])
      | Some z \<Rightarrow>
          (case conv z of
             Inr js \<Rightarrow> (op\<lparr> opRequestBody := Some js \<rparr>, [])
           | Inl err \<Rightarrow> (op, [FailedBodySchema (toUpperCase method) path err])))"

text \<open>"Add query parameters if present".\<close>

definition addQueryParameters ::
  "converter \<Rightarrow> string \<Rightarrow> string \<Rightarrow> RouteSchema \<Rightarrow> operation \<Rightarrow> operation \<times> generatorWarning list" where
  "addQueryParameters conv method path sch op =
     (case query sch of
        None \<Rightarrow> (op, [])
      | Some z \<Rightarrow>
          (case conv z of
             Inl err \<Rightarrow> (op, [FailedQuerySchema (toUpperCase method) path err])
           | Inr js \<Rightarrow>
               (case hasProperties js of
                  Inl err \<Rightarrow> (op, [FailedQuerySchema (toUpperCase method) path err])
                | Inr present \<Rightarrow>
                    if present then (op\<lparr> opParameters := Some (queryDescriptors js) \<rparr>, [])
                    else (op, []))))"

text \<open>"Add path parameters if present".\<close>

definition addPathParameters ::
  "converter \<Rightarrow> string \<Rightarrow> string \<Rightarrow> RouteSchema \<Rightarrow> operation \<Rightarrow> operation \<times> generatorWarning list" where
  "addPathParameters conv method path sch op =
     (case params sch of
        None \<Rightarrow> (op, [])
      | Some z \<Rightarrow>
          (case conv z of
             Inl err \<Rightarrow> (op, [FailedParamsSchema (toUpperCase method) path err])
           | Inr js \<Rightarrow>
               (case hasProperties js of
                  Inl err \<Rightarrow> (op, [FailedParamsSchema (toUpperCase method) path err])
                | Inr present \<Rightarrow>
                    if present
                    then (op\<lparr> opParameters :=
                                Some ((case opParameters op of None \<Rightarrow> [] | Some ps \<Rightarrow> ps) @
                                      pathDescriptors js) \<rparr>, [])
                    else (op, []))))"

text \<open>One entry of \<open>route.schema.responses\<close>.\<close>

definition addResponse ::
  "converter \<Rightarrow> string \<Rightarrow> string \<Rightarrow> string \<times> responseConfig \<Rightarrow>
   operation \<times> generatorWarning list \<Rightarrow> operation \<times> generatorWarning list" where
  "addResponse conv method path entry acc =
     (let statusCode = fst entry;
          config = snd entry;
          op = fst acc;
          dsc = stringOr (responseDescription config) (''Response '' @ statusCode)
      in case responseSchema config of
           None \<Rightarrow>
             (op\<lparr> opResponses := (opResponses op)
                     (statusCode \<mapsto> \<lparr> descriptorDescription = dsc, descriptorSchema = None \<rparr>) \<rparr>,
              snd acc)
         | Some z \<Rightarrow>
             (case conv z of
                Inr js \<Rightarrow>
                  (op\<lparr> opResponses := (opResponses op)
                          (statusCode \<mapsto> \<lparr> descriptorDescription = dsc,
                                            descriptorSchema = Some js \<rparr>) \<rparr>,
                   snd acc)
              | Inl err \<Rightarrow>
                  (op\<lparr> opResponses := (opResponses op)
                          (statusCode \<mapsto> \<lparr> descriptorDescription = dsc,
                                            descriptorSchema = None \<rparr>) \<rparr>,
                   snd acc @ [FailedResponseSchema statusCode (toUpperCase method) path err])))"

text \<open>"Add responses".\<close>

definition addResponses ::
  "converter \<Rightarrow> string \<Rightarrow> string \<Rightarrow> RouteSchema \<Rightarrow> operation \<Rightarrow> operation \<times> generatorWarning list" where
  "addResponses conv method path sch op =
     (case responses sch of
        Some rs \<Rightarrow>
          foldl (\<lambda>acc entry. addResponse conv method path entry acc)
                (op\<lparr> opResponses := Map.empty \<rparr>, []) rs
      | None \<Rightarrow>
          (op\<lparr> opResponses :=
                 [''200'' \<mapsto> \<lparr> descriptorDescription = ''Success'', descriptorSchema = None \<rparr>] \<rparr>,
           []))"

text \<open>The operation object built for a route with a schema.\<close>

definition buildOperation ::
  "converter \<Rightarrow> routeEntry \<Rightarrow> RouteSchema \<Rightarrow> string \<Rightarrow> string \<Rightarrow> string \<Rightarrow> nat \<Rightarrow>
   operation \<times> generatorWarning list" where
  "buildOperation conv route sch path pathKey method index =
     (let op0 = \<lparr> opOperationId =
                    stringOr (metadataField operationId route)
                      (method @ keepAlphaNumeric pathKey @ showNat index),
                  opSummary =
                    stringOr (metadataField summary route) (toUpperCase method @ '' '' @ pathKey),
                  opDescription = stringOr (metadataField description route) [],
                  opTags = (case metadataField tags route of None \<Rightarrow> [''Default''] | Some ts \<Rightarrow> ts),
                  opDeprecated = isTrue (metadataField deprecated route),
                  opRequestBody = None,
                  opParameters = None,
                  opResponses = Map.empty \<rparr>
      in case addRequestBody conv method path sch op0 of (op1, w1) \<Rightarrow>
         (case addQueryParameters conv method path sch op1 of (op2, w2) \<Rightarrow>
         (case addPathParameters conv method path sch op2 of (op3, w3) \<Rightarrow>
         (case addResponses conv method path sch op3 of (op4, w4) \<Rightarrow>
            (op4, w1 @ w2 @ w3 @ w4)))))"

text \<open>
  The \<open>paths\<close> mapping of the document: path key to method to operation. (Keys that
  name an inherited member of a JavaScript object are outside this model.)
\<close>

type_synonym pathsObject = "string \<rightharpoonup> (string \<rightharpoonup> operation)"

text \<open>
  The body of the \<open>forEach\<close> callback for one route and its index. A route whose path
  is \<open>undefined\<close> makes \<open>route.path.replace\<close> throw.
\<close>

definition processRoute ::
  "converter \<Rightarrow> routeEntry \<Rightarrow> nat \<Rightarrow> pathsObject \<Rightarrow> thrown + (pathsObject \<times> generatorWarning list)" where
  "processRoute conv route index pathsObj =
     (case routeSchema route of
        None \<Rightarrow> Inr (pathsObj, [])
      | Some sch \<Rightarrow>
          (case routePath route of
             None \<Rightarrow> Inl (Error ''Cannot read properties of undefined (reading replace)'')
           | Some path \<Rightarrow>
               (let pathKey = replaceParams path; method = toLowerCase (routeMethod route);
                    item = (case pathsObj pathKey of None \<Rightarrow> Map.empty | Some ops \<Rightarrow> ops)
                in case buildOperation conv route sch path pathKey method index of
                     (op, warnings) \<Rightarrow>
                       Inr (pathsObj(pathKey \<mapsto> item(method \<mapsto> op)), warnings))))"

text \<open>\<open>routes.forEach((route, index) => ...)\<close>, from index \<open>index\<close> on.\<close>

fun processRoutes ::
  "converter \<Rightarrow> nat \<Rightarrow> routeEntry list \<Rightarrow> pathsObject \<times> generatorWarning list \<Rightarrow>
   thrown + (pathsObject \<times> generatorWarning list)" where
  "processRoutes conv index [] acc = Inr acc"
| "processRoutes conv index (route # rest) acc =
     (case processRoute conv route index (fst acc) of
        Inl err \<Rightarrow> Inl err
      | Inr done \<Rightarrow> processRoutes conv (Suc index) rest (fst done, snd acc @ snd done))"

record serverEntry =
  serverUrl :: string
  serverDescription :: "string option"

record OpenApiOptions =
  optionTitle :: "string option"
  optionDescription :: "string option"
  optionVersion :: "string option"
  optionServers :: "serverEntry list option"

record openApiSpec =
  openapi :: string
  infoTitle :: string
  infoDescription :: string
  infoVersion :: string
  servers :: "serverEntry list"
  paths :: pathsObject
  componentsSchemas :: "(string \<times> json) list"

text \<open>\<open>generateOpenApiSpec\<close>: the document and the warnings logged, or what is thrown.\<close>

definition generateOpenApiSpec ::
  "converter \<Rightarrow> typedApp \<Rightarrow> OpenApiOptions \<Rightarrow> thrown + (openApiSpec \<times> generatorWarning list)" where
  "generateOpenApiSpec conv app options =
     (case processRoutes conv 0 (getRoutes app) (Map.empty, []) of
        Inl err \<Rightarrow> Inl err
      | Inr done \<Rightarrow>
          Inr (\<lparr> openapi = ''3.0.3'',
                 infoTitle = stringOr (optionTitle options) ''TypeSafe API'',
                 infoDescription =
                   stringOr (optionDescription options)
                     ''Generated API documentation using typed-restana-app'',
                 infoVersion = stringOr (optionVersion options) ''1.0.0'',
                 servers = (case optionServers options of
                              Some srv \<Rightarrow> srv
                            | None \<Rightarrow> [\<lparr> serverUrl = ''http://localhost:3000'',
                                          serverDescription = Some ''Development server'' \<rparr>]),
                 paths = fst done,
                 componentsSchemas = [] \<rparr>,
               snd done))"

text \<open>The path key that a route contributes: none without a schema.\<close>

definition documentedKey :: "routeEntry \<Rightarrow> string option" where
  "documentedKey route =
     (if routeSchema route = None then None else map_option replaceParams (routePath route))"

section \<open>Example environments, requests and routes\<close>

definition devEnv :: env where
  "devEnv = \<lparr> nodeEnv = Some ''development'', sendThrows = (\<lambda>d. None) \<rparr>"

definition prodEnv :: env where
  "prodEnv = \<lparr> nodeEnv = Some ''production'', sendThrows = (\<lambda>d. None) \<rparr>"

text \<open>An app created with \<open>{strict: false, validateResponses: true, logValidationErrors: false}\<close>.\<close>

definition lenientApp :: "env \<Rightarrow> appConfig" where
  "lenientApp e =
     createAppConfig e \<lparr> optStrict = Value False, optValidateResponses = Value True,
                          optLogValidationErrors = Value False \<rparr>"

definition freshResponse :: response where
  "freshResponse = \<lparr> statusCode = Some 200, headersSent = False, headers = [], wire = [] \<rparr>"

definition emptyRequest :: request where
  "emptyRequest = \<lparr> reqQuery = JUndefined, reqParams = JUndefined, reqBody = JUndefined \<rparr>"

text \<open>A route with no schema whose handler throws.\<close>

definition throwingRoute :: "thrown \<Rightarrow> RouteConfig" where
  "throwingRoute err =
     \<lparr> schema = None, metadata = None, strictOverride = Absent,
       validateResponseOverride = Absent,
       handler = (\<lambda>ctx res. (Inl err, res)) \<rparr>"

text \<open>A route with no schema whose handler returns the body it was given.\<close>

definition echoRoute :: RouteConfig where
  "echoRoute =
     \<lparr> schema = None, metadata = None, strictOverride = Absent,
       validateResponseOverride = Absent,
       handler = (\<lambda>ctx res. (Inr (ctxBody ctx), res)) \<rparr>"

text \<open>A route with no schema whose handler sends the response itself and returns nothing.\<close>

definition selfSendingRoute :: RouteConfig where
  "selfSendingRoute =
     \<lparr> schema = None, metadata = None, strictOverride = Absent,
       validateResponseOverride = Absent,
       handler = (\<lambda>ctx res.
          (Inr JUndefined,
           res\<lparr> statusCode := Some 404, headersSent := True,
                wire := wire res @ [Send (JObj [(''error'', JStr ''Not found'')]) 404 []] \<rparr>)) \<rparr>"

definition userSchema :: zodSchema where
  "userSchema = zodObject [(''name'', zodString), (''email'', zodString)]"

text \<open>
  A route that declares \<open>userSchema\<close> for the body and for the response of status 200,
  and whose handler returns \<open>{name: "John"}\<close>, without the email.
\<close>

definition userRoute :: RouteConfig where
  "userRoute =
     \<lparr> schema = Some \<lparr> query = None, params = None, body = Some userSchema,
                       responses = Some [(''200'', \<lparr> responseSchema = Some userSchema,
                                                     responseDescription = None \<rparr>)] \<rparr>,
       metadata = None, strictOverride = Absent,
       validateResponseOverride = Value True,
       handler = (\<lambda>ctx res. (Inr (JObj [(''name'', JStr ''John'')]), res)) \<rparr>"

definition johnRequest :: request where
  "johnRequest =
     \<lparr> reqQuery = JUndefined, reqParams = JUndefined,
       reqBody = JObj [(''name'', JStr ''John''), (''email'', JStr ''john@example.com'')] \<rparr>"

text \<open>A request whose body has a number for the name and no email.\<close>

definition badRequest :: request where
  "badRequest = \<lparr> reqQuery = JUndefined, reqParams = JUndefined,
                   reqBody = JObj [(''name'', JNum 1)] \<rparr>"

text \<open>A route with no schema whose handler sends the response itself and then throws.\<close>

definition sendThenThrowRoute :: RouteConfig where
  "sendThenThrowRoute =
     \<lparr> schema = None, metadata = None, strictOverride = Absent,
       validateResponseOverride = Absent,
       handler = (\<lambda>ctx res.
          (Inl (Error ''late failure''),
           res\<lparr> statusCode := Some 200, headersSent := True,
                wire := wire res @ [Send (JObj [(''ok'', JBool True)]) 200 []] \<rparr>)) \<rparr>"

text \<open>The response objects that these two handlers leave behind, starting from \<open>freshResponse\<close>.\<close>

definition notFoundResponse :: response where
  "notFoundResponse =
     \<lparr> statusCode = Some 404, headersSent = True, headers = [],
       wire = [Send (JObj [(''error'', JStr ''Not found'')]) 404 []] \<rparr>"

definition okResponse :: response where
  "okResponse =
     \<lparr> statusCode = Some 200, headersSent = True, headers = [],
       wire = [Send (JObj [(''ok'', JBool True)]) 200 []] \<rparr>"

text \<open>A request whose JSON body is \<open>false\<close>.\<close>

definition falseBodyRequest :: request where
  "falseBodyRequest = \<lparr> reqQuery = JUndefined, reqParams = JUndefined, reqBody = JBool False \<rparr>"

text \<open>
  A strict route with a schema for each input and no response schema; its handler sets
  the status 201 and returns nothing.
\<close>

definition itemRoute :: RouteConfig where
  "itemRoute =
     \<lparr> schema = Some \<lparr> query = Some (zodObject [(''page'', zodString)]),
                       params = Some (zodObject [(''id'', zodString)]),
                       body = Some userSchema,
                       responses = None \<rparr>,
       metadata = None, strictOverride = Value True,
       validateResponseOverride = Absent,
       handler = (\<lambda>ctx res. (Inr JUndefined, res\<lparr> statusCode := Some 201 \<rparr>)) \<rparr>"

definition itemRequest :: "json \<Rightarrow> json \<Rightarrow> json \<Rightarrow> request" where
  "itemRequest q p b = \<lparr> reqQuery = q, reqParams = p, reqBody = b \<rparr>"

definition goodQuery :: json where
  "goodQuery = JObj [(''page'', JStr ''2'')]"

definition goodParams :: json where
  "goodParams = JObj [(''id'', JStr ''7'')]"

definition goodBody :: json where
  "goodBody = JObj [(''name'', JStr ''John''), (''email'', JStr ''john@example.com'')]"


text \<open>
  A converter that returns the same JSON Schema for every schema, with an optional
  property \<open>search\<close> and a required property \<open>page\<close>; a route schema and a
  registry entry to convert.
\<close>

definition searchConverter :: converter where
  "searchConverter z =
     Inr (JObj [(''type'', JStr ''object''),
                (''properties'', JObj [(''search'', JObj [(''type'', JStr ''string'')]),
                                       (''page'', JObj [(''type'', JStr ''number'')])]),
                (''required'', JArr [JStr ''page''])])"



text \<open>
  An app with one route without a schema, and an app with that route and a route with a
  schema; the default options of the generator.
\<close>

definition healthApp :: typedApp where
  "healthApp = appGet (OnePath ''/health'') echoRoute emptyApp"

definition usersApp :: typedApp where
  "usersApp = appPost (OnePath ''/users/:id'') userRoute
                (appGet (OnePath ''/health'') echoRoute emptyApp)"

definition defaultOptions :: OpenApiOptions where
  "defaultOptions = \<lparr> optionTitle = None, optionDescription = None, optionVersion = None,
                       optionServers = None \<rparr>"




text \<open>
  Modelled from the spec: a schema of the validator library that is not an object schema,
  such as a string or an array schema. It has neither a \<open>strict\<close> nor a
  \<open>passthrough\<close> member.
\<close>

definition plainSchema :: zodSchema where
  "plainSchema = \<lparr> strictMode = None, passthroughMode = None \<rparr>"

text \<open>A route whose body schema is \<open>plainSchema\<close>; its handler returns the body.\<close>

definition plainBodyRoute :: RouteConfig where
  "plainBodyRoute =
     \<lparr> schema = Some \<lparr> query = None, params = None, body = Some plainSchema,
                       responses = None \<rparr>,
       metadata = None, strictOverride = Absent,
       validateResponseOverride = Absent,
       handler = (\<lambda>ctx res. (Inr (ctxBody ctx), res)) \<rparr>"

text \<open>
  A route that validates its response against \<open>plainSchema\<close>; its handler returns
  \<open>{name: "John"}\<close>.
\<close>

definition plainResponseRoute :: RouteConfig where
  "plainResponseRoute =
     \<lparr> schema = Some \<lparr> query = None, params = None, body = None,
                       responses = Some [(''200'', \<lparr> responseSchema = Some plainSchema,
                                                     responseDescription = None \<rparr>)] \<rparr>,
       metadata = None, strictOverride = Absent,
       validateResponseOverride = Value True,
       handler = (\<lambda>ctx res. (Inr (JObj [(''name'', JStr ''John'')]), res)) \<rparr>"

section \<open>Properties\<close>

text \<open>The definitions that a run of the adapter on a concrete request unfolds.\<close>

lemmas adapter_eval =
  createValidatedHandler_def tryBlock_def handlerPhase_def sendPhase_def catchBlock_def
  checkResponse_def validateResponse_def validateInput_def validateData_def
  validationSchema_def schemaFor_def routeStrict_def routeValidateResponse_def
  responseSchema200_def orElse_def send_def statusOr200_def jsonContentType_def
  validationBody_def internalErrorBody_def issueDetail_def isDevelopment_def
  lenientApp_def createAppConfig_def devEnv_def freshResponse_def Let_def

lemma getRoutes_registerAll:
  "getRoutes (registerAll regs app) = getRoutes app @ map entryOf regs"
  by (induction regs arbitrary: app)
     (auto simp: getRoutes_def registerRoute_def entryOf_def)

text \<open>
  Claim C7. The route registry is append-only. A registration leaves the entries
  recorded so far as they are and appends exactly one entry, which holds the
  upper-cased method, the path (the first one when the argument is an array), the
  schema and the metadata; \<open>getRoutes\<close> returns the entries in registration order;
  registering the same method and path a second time appends a second entry, with no
  deduplication.
\<close>

theorem registry_append_only:
  "getRoutes (registerRoute method path config app) =
     getRoutes app @
       [\<lparr> routeMethod = toUpperCase method, routePath = pathForDoc path,
          routeSchema = schema config, routeMetadata = metadata config \<rparr>]
   \<and> pathForDoc (PathArray (p # ps)) = Some p
   \<and> getRoutes (registerAll regs app) = getRoutes app @ map entryOf regs
   \<and> getRoutes (registerRoute method path config (registerRoute method path config app)) =
       getRoutes app @ [entryOf (method, path, config), entryOf (method, path, config)]"
  by (simp add: getRoutes_registerAll)
     (simp add: getRoutes_def registerRoute_def entryOf_def)

subsection \<open>Input validation\<close>

lemma validateInput_ok_quiet:
  "validateInput ac s raw context strictArg = (Inr v, logs) \<Longrightarrow> logs = []"
  by (auto simp: validateInput_def validateData_def Let_def split: option.splits sum.splits)

lemma validateInput_passes:
  "\<not> isl (fst (validateInput ac s raw context strictArg)) \<Longrightarrow>
   \<exists>v. validateInput ac s raw context strictArg = (Inr v, [])"
proof -
  assume a: "\<not> isl (fst (validateInput ac s raw context strictArg))"
  obtain r logs where eq: "validateInput ac s raw context strictArg = (r, logs)"
    by (cases "validateInput ac s raw context strictArg") auto
  with a obtain v where "r = Inr v"
    by (cases r) auto
  with eq validateInput_ok_quiet show ?thesis
    by auto
qed

lemma validateData_fails:
  assumes "validationSchema (nullish strictArg (strict ac)) s = Inr safeParse"
      and "safeParse data = Inl issues"
  shows "validateData ac data s context strictArg =
           (Inl (ValidationError (''Validation failed for '' @ context) (map (issueDetail data) issues)),
            if isTrue (logValidationErrors ac)
            then [WarnValidationFailed context data (map (issueDetail data) issues)
                    (nullish strictArg (strict ac))]
            else [])"
  using assms by (simp add: validateData_def Let_def)

lemma input_context_not_response:
  "\<not> strIncludes (''Validation failed for query'') ''response (''"
  "\<not> strIncludes (''Validation failed for params'') ''response (''"
  "\<not> strIncludes (''Validation failed for body'') ''response (''"
  by simp_all

text \<open>
  Claim C3, as amended. The headers have not been sent, and the first input that fails
  its configured schema is \<open>context\<close> (the query; or the params, the query having
  passed; or the body, the query and the params having passed). The schema offers the
  mode that the adapter selects (\<open>strict()\<close> when the strictness is true and the schema
  has a \<open>strict\<close> member, \<open>passthrough()\<close> otherwise), and in that mode the validator
  reports \<open>issues\<close> on the validated payload \<open>data\<close>, which is the input, or an empty
  object when the input is falsy. Then the adapter sends status 400 with the body
  \<open>{error: "Validation failed", message, details}\<close>. The details have one entry per
  issue, in the order of the issues, each with the dotted path of the issue, its message
  and the whole validated payload as the value. (\<open>res.send\<close> is taken not to throw on
  this body.)
\<close>

theorem input_validation_failure_400:
  assumes sent: "\<not> headersSent res"
      and mode: "validationSchema (nullish (routeStrict config) (strict ac)) s = Inr safeParse"
      and fails: "safeParse data = Inl issues"
      and place:
        "(context = ''query'' \<and> schemaFor query config = Some s
            \<and> data = orElse (reqQuery req) (JObj []))
         \<or> (context = ''params'' \<and> schemaFor params config = Some s
            \<and> data = orElse (reqParams req) (JObj [])
            \<and> \<not> isl (fst (validateInput ac (schemaFor query config) (reqQuery req) ''query''
                             (routeStrict config))))
         \<or> (context = ''body'' \<and> schemaFor body config = Some s
            \<and> data = orElse (reqBody req) (JObj [])
            \<and> \<not> isl (fst (validateInput ac (schemaFor query config) (reqQuery req) ''query''
                             (routeStrict config)))
            \<and> \<not> isl (fst (validateInput ac (schemaFor params config) (reqParams req) ''params''
                             (routeStrict config))))"
      and cansend:
        "sendThrows e (validationBody ''Validation failed'' (''Validation failed for '' @ context)
                         (map (issueDetail data) issues)) = None"
  shows "createValidatedHandler e ac config req res =
           (None,
            res\<lparr> statusCode := Some 400, headersSent := True,
                 wire := wire res @
                   [Send (JObj [(''error'', JStr ''Validation failed''),
                                (''message'', JStr (''Validation failed for '' @ context)),
                                (''details'',
                                 JArr (map (\<lambda>i. JObj [(''path'', JStr (join ''.'' (map showPathElem (issuePath i)))),
                                                       (''message'', JStr (issueMessage i)),
                                                       (''value'', data)])
                                           issues))])
                         400 [(''Content-Type'', ''application/json'')]] \<rparr>,
            if isTrue (logValidationErrors ac)
            then [WarnValidationFailed context data (map (issueDetail data) issues)
                    (nullish (routeStrict config) (strict ac))]
            else [])"
proof -
  let ?err = "ValidationError (''Validation failed for '' @ context) (map (issueDetail data) issues)"
  let ?logs = "if isTrue (logValidationErrors ac)
               then [WarnValidationFailed context data (map (issueDetail data) issues)
                       (nullish (routeStrict config) (strict ac))]
               else []"
  have vd: "validateData ac data s context (routeStrict config) = (Inl ?err, ?logs)"
    by (rule validateData_fails [OF mode fails])
  have hp: "handlerPhase ac config req res = (Inl ?err, res, ?logs)"
    using place
  proof (elim disjE conjE)
    assume "context = ''query''" "schemaFor query config = Some s"
           "data = orElse (reqQuery req) (JObj [])"
    then show ?thesis
      using vd by (simp add: handlerPhase_def validateInput_def)
  next
    assume c: "context = ''params''" "schemaFor params config = Some s"
              "data = orElse (reqParams req) (JObj [])"
       and q: "\<not> isl (fst (validateInput ac (schemaFor query config) (reqQuery req) ''query''
                             (routeStrict config)))"
    from validateInput_passes [OF q] obtain qv where
      qv: "validateInput ac (schemaFor query config) (reqQuery req) ''query'' (routeStrict config)
           = (Inr qv, [])" by blast
    have "validateInput ac (schemaFor params config) (reqParams req) ''params'' (routeStrict config)
          = (Inl ?err, ?logs)"
      using c vd by (simp add: validateInput_def)
    then show ?thesis
      using qv by (simp add: handlerPhase_def)
  next
    assume c: "context = ''body''" "schemaFor body config = Some s"
              "data = orElse (reqBody req) (JObj [])"
       and q: "\<not> isl (fst (validateInput ac (schemaFor query config) (reqQuery req) ''query''
                             (routeStrict config)))"
       and p: "\<not> isl (fst (validateInput ac (schemaFor params config) (reqParams req) ''params''
                             (routeStrict config)))"
    from validateInput_passes [OF q] obtain qv where
      qv: "validateInput ac (schemaFor query config) (reqQuery req) ''query'' (routeStrict config)
           = (Inr qv, [])" by blast
    from validateInput_passes [OF p] obtain pv where
      pv: "validateInput ac (schemaFor params config) (reqParams req) ''params'' (routeStrict config)
           = (Inr pv, [])" by blast
    have "validateInput ac (schemaFor body config) (reqBody req) ''body'' (routeStrict config)
          = (Inl ?err, ?logs)"
      using c vd by (simp add: validateInput_def)
    then show ?thesis
      using qv pv by (simp add: handlerPhase_def)
  qed
  have nr: "\<not> strIncludes (''Validation failed for '' @ context) ''response (''"
    using place input_context_not_response by auto
  have tb: "tryBlock e ac config req res = (Inl ?err, res, ?logs)"
    using hp by (simp add: tryBlock_def)
  show ?thesis
    using tb sent nr cansend
    by (simp add: createValidatedHandler_def catchBlock_def send_def jsonContentType_def
                  validationBody_def issueDetail_def)
qed


theorem input_validation_failure_400_witness:
  "\<not> headersSent freshResponse
   \<and> validationSchema (nullish (routeStrict userRoute) (strict (lenientApp devEnv))) userSchema
       = Inr (parseObject PassThroughUnknown [(''name'', zodString), (''email'', zodString)])
   \<and> parseObject PassThroughUnknown [(''name'', zodString), (''email'', zodString)]
         (JObj [(''name'', JNum 1)])
       = Inl [\<lparr> issuePath = [Key ''name''], issueMessage = ''Expected string'' \<rparr>,
              \<lparr> issuePath = [Key ''email''], issueMessage = ''Expected string'' \<rparr>]
   \<and> createValidatedHandler devEnv (lenientApp devEnv) userRoute badRequest freshResponse
       = (None,
          freshResponse\<lparr> statusCode := Some 400, headersSent := True,
            wire := [Send (JObj [(''error'', JStr ''Validation failed''),
                                 (''message'', JStr ''Validation failed for body''),
                                 (''details'',
                                  JArr [JObj [(''path'', JStr ''name''),
                                              (''message'', JStr ''Expected string''),
                                              (''value'', JObj [(''name'', JNum 1)])],
                                        JObj [(''path'', JStr ''email''),
                                              (''message'', JStr ''Expected string''),
                                              (''value'', JObj [(''name'', JNum 1)])]])])
                          400 [(''Content-Type'', ''application/json'')]] \<rparr>,
          [])"
proof -
  let ?shape = "[(''name'', zodString), (''email'', zodString)]"
  let ?data = "JObj [(''name'', JNum 1)]"
  let ?issues = "[\<lparr> issuePath = [Key ''name''], issueMessage = ''Expected string'' \<rparr>,
                  \<lparr> issuePath = [Key ''email''], issueMessage = ''Expected string'' \<rparr>]"
  have sent: "\<not> headersSent freshResponse"
    by (simp add: freshResponse_def)
  have mode: "validationSchema (nullish (routeStrict userRoute) (strict (lenientApp devEnv))) userSchema
              = Inr (parseObject PassThroughUnknown ?shape)"
    by (simp add: validationSchema_def routeStrict_def userRoute_def lenientApp_def
                  createAppConfig_def userSchema_def zodObject_def)
  have fails: "parseObject PassThroughUnknown ?shape ?data = Inl ?issues"
    by (simp add: parseObject_def fieldIssues_def getProp_def zodString_def unknownFields_def
                  Let_def)
  have place:
    "(''body'' = ''query'' \<and> schemaFor query userRoute = Some userSchema
        \<and> ?data = orElse (reqQuery badRequest) (JObj []))
     \<or> (''body'' = ''params'' \<and> schemaFor params userRoute = Some userSchema
        \<and> ?data = orElse (reqParams badRequest) (JObj [])
        \<and> \<not> isl (fst (validateInput (lenientApp devEnv) (schemaFor query userRoute)
                         (reqQuery badRequest) ''query'' (routeStrict userRoute))))
     \<or> (''body'' = ''body'' \<and> schemaFor body userRoute = Some userSchema
        \<and> ?data = orElse (reqBody badRequest) (JObj [])
        \<and> \<not> isl (fst (validateInput (lenientApp devEnv) (schemaFor query userRoute)
                         (reqQuery badRequest) ''query'' (routeStrict userRoute)))
        \<and> \<not> isl (fst (validateInput (lenientApp devEnv) (schemaFor params userRoute)
                         (reqParams badRequest) ''params'' (routeStrict userRoute))))"
    by (simp add: schemaFor_def userRoute_def badRequest_def orElse_def validateInput_def)
  have cansend:
    "sendThrows devEnv (validationBody ''Validation failed'' (''Validation failed for '' @ ''body'')
                          (map (issueDetail ?data) ?issues)) = None"
    by (simp add: devEnv_def)
  have quiet: "\<not> isTrue (logValidationErrors (lenientApp devEnv))"
    by (simp add: lenientApp_def createAppConfig_def)
  show ?thesis
    using input_validation_failure_400 [OF sent mode fails place cansend] sent mode fails quiet
    by (simp add: freshResponse_def)
qed


text \<open>
  The claim as stated fails in two ways. With the JSON body \<open>false\<close> and an object
  schema for the body, the adapter validates an empty object in its place, and the value
  of each detail is that empty object, not the payload. With a body schema that has no
  \<open>passthrough\<close> member, selecting the mode throws a \<open>TypeError\<close>, and the request is
  answered 500 \<open>Internal Server Error\<close>, whatever the body.
\<close>

theorem input_validation_not_always_400:
  "reqBody falseBodyRequest = JBool False
   \<and> schemaFor body userRoute = Some userSchema
   \<and> createValidatedHandler devEnv (lenientApp devEnv) userRoute falseBodyRequest freshResponse =
       (None,
        freshResponse\<lparr> statusCode := Some 400, headersSent := True,
          wire := [Send (JObj [(''error'', JStr ''Validation failed''),
                               (''message'', JStr ''Validation failed for body''),
                               (''details'',
                                JArr [JObj [(''path'', JStr ''name''),
                                            (''message'', JStr ''Expected string''),
                                            (''value'', JObj [])],
                                      JObj [(''path'', JStr ''email''),
                                            (''message'', JStr ''Expected string''),
                                            (''value'', JObj [])]])])
                        400 [(''Content-Type'', ''application/json'')]] \<rparr>,
        [])
   \<and> schemaFor body plainBodyRoute = Some plainSchema
   \<and> createValidatedHandler devEnv (lenientApp devEnv) plainBodyRoute badRequest freshResponse =
       (None,
        freshResponse\<lparr> statusCode := Some 500, headersSent := True,
          wire := [Send (JObj [(''error'', JStr ''Internal Server Error''),
                               (''message'', JStr ''schema.passthrough is not a function'')])
                        500 [(''Content-Type'', ''application/json'')]] \<rparr>,
        [])"
  by (simp add: adapter_eval falseBodyRequest_def badRequest_def userRoute_def plainBodyRoute_def
                plainSchema_def userSchema_def zodObject_def parseObject_def fieldIssues_def
                fieldOutput_def getProp_def zodString_def unknownFields_def)

subsection \<open>Errors caught by the adapter\<close>

text \<open>
  Claim C10. A \<open>ValidationError\<close> caught from the \<open>try\<close> block, whoever threw it, is
  classified by its message alone: when the headers have not been sent, the adapter
  sends status 500 with \<open>error: "Response validation failed"\<close> if the message contains
  \<open>response (\<close>, and status 400 with \<open>error: "Validation failed"\<close> otherwise. So a
  \<open>ValidationError\<close> thrown by the business handler with a message without that
  substring reaches the client as 400. (\<open>res.send\<close> is taken not to throw on the body.)
\<close>

theorem validation_error_classification:
  assumes "tryBlock e ac config req res = (Inl (ValidationError msg details), res1, logs)"
      and "\<not> headersSent res1"
      and "sendThrows e (validationBody (if strIncludes msg ''response (''
                                          then ''Response validation failed''
                                          else ''Validation failed'') msg details) = None"
  shows "createValidatedHandler e ac config req res =
           (None,
            (if strIncludes msg ''response (''
             then res1\<lparr> statusCode := Some 500, headersSent := True,
                        wire := wire res1 @
                          [Send (validationBody ''Response validation failed'' msg details) 500
                                [(''Content-Type'', ''application/json'')]] \<rparr>
             else res1\<lparr> statusCode := Some 400, headersSent := True,
                        wire := wire res1 @
                          [Send (validationBody ''Validation failed'' msg details) 400
                                [(''Content-Type'', ''application/json'')]] \<rparr>),
            logs)"
  using assms
  by (simp add: createValidatedHandler_def catchBlock_def send_def jsonContentType_def
           split: if_splits)

theorem validation_error_classification_witness:
  "tryBlock devEnv (lenientApp devEnv) (throwingRoute (ValidationError ''Custom check failed'' []))
      emptyRequest freshResponse
     = (Inl (ValidationError ''Custom check failed'' []), freshResponse, [])
   \<and> \<not> headersSent freshResponse
   \<and> \<not> strIncludes ''Custom check failed'' ''response (''
   \<and> createValidatedHandler devEnv (lenientApp devEnv)
        (throwingRoute (ValidationError ''Custom check failed'' [])) emptyRequest freshResponse
     = (None,
        freshResponse\<lparr> statusCode := Some 400, headersSent := True,
          wire := [Send (JObj [(''error'', JStr ''Validation failed''),
                               (''message'', JStr ''Custom check failed''),
                               (''details'', JArr [])]) 400
                        [(''Content-Type'', ''application/json'')]] \<rparr>,
        [])"
proof -
  have t: "tryBlock devEnv (lenientApp devEnv)
             (throwingRoute (ValidationError ''Custom check failed'' [])) emptyRequest freshResponse
           = (Inl (ValidationError ''Custom check failed'' []), freshResponse, [])"
    by (simp add: tryBlock_def handlerPhase_def validateInput_def schemaFor_def
                  throwingRoute_def)
  have h: "\<not> headersSent freshResponse"
    by (simp add: freshResponse_def)
  have s: "sendThrows devEnv
             (validationBody (if strIncludes ''Custom check failed'' ''response (''
                              then ''Response validation failed''
                              else ''Validation failed'') ''Custom check failed'' []) = None"
    by (simp add: devEnv_def)
  have n: "\<not> strIncludes ''Custom check failed'' ''response (''"
    by simp
  show ?thesis
    using validation_error_classification [OF t h s] t h n
    by (simp add: validationBody_def freshResponse_def)
qed

text \<open>
  Claim C6. Any error caught from the \<open>try\<close> block that is not a \<open>ValidationError\<close>,
  in particular one thrown by the business handler, is answered, when the headers have
  not been sent, with status 500 and the body \<open>{error: "Internal Server Error",
  message}\<close>; the message is the error's message when an \<open>Error\<close> was thrown and a
  generic text for any other thrown value. (\<open>res.send\<close> is taken not to throw on the
  body.)
\<close>

theorem handler_exception_500:
  assumes "tryBlock e ac config req res = (Inl err, res1, logs)"
      and "\<not> isValidationError err"
      and "\<not> headersSent res1"
      and "sendThrows e (internalErrorBody err) = None"
  shows "createValidatedHandler e ac config req res =
           (None,
            res1\<lparr> statusCode := Some 500, headersSent := True,
                  wire := wire res1 @
                    [Send (JObj [(''error'', JStr ''Internal Server Error''),
                                 (''message'',
                                  JStr (case err of
                                          Error msg \<Rightarrow> msg
                                        | Thrown v \<Rightarrow> ''An unexpected error occurred''
                                        | ValidationError msg details \<Rightarrow> msg))])
                          500 [(''Content-Type'', ''application/json'')]] \<rparr>,
            logs)"
  using assms
  by (cases err)
     (simp_all add: createValidatedHandler_def catchBlock_def send_def jsonContentType_def
                    internalErrorBody_def)

theorem handler_exception_500_witness:
  "tryBlock devEnv (lenientApp devEnv) (throwingRoute (Error ''boom'')) emptyRequest freshResponse
     = (Inl (Error ''boom''), freshResponse, [])
   \<and> \<not> isValidationError (Error ''boom'')
   \<and> \<not> headersSent freshResponse
   \<and> createValidatedHandler devEnv (lenientApp devEnv) (throwingRoute (Error ''boom''))
        emptyRequest freshResponse
     = (None,
        freshResponse\<lparr> statusCode := Some 500, headersSent := True,
          wire := [Send (JObj [(''error'', JStr ''Internal Server Error''),
                               (''message'', JStr ''boom'')]) 500
                        [(''Content-Type'', ''application/json'')]] \<rparr>,
        [])"
proof -
  have t: "tryBlock devEnv (lenientApp devEnv) (throwingRoute (Error ''boom''))
             emptyRequest freshResponse
           = (Inl (Error ''boom''), freshResponse, [])"
    by (simp add: tryBlock_def handlerPhase_def validateInput_def schemaFor_def
                  throwingRoute_def)
  have v: "\<not> isValidationError (Error ''boom'')"
    by simp
  have h: "\<not> headersSent freshResponse"
    by (simp add: freshResponse_def)
  have s: "sendThrows devEnv (internalErrorBody (Error ''boom'')) = None"
    by (simp add: devEnv_def)
  show ?thesis
    using handler_exception_500 [OF t v h s] t v h
    by (simp add: freshResponse_def)
qed

subsection \<open>Response validation\<close>

lemma showNat_200: "showNat 200 = ''200''"
  by code_simp

lemma responseContext_200: "responseContext 200 = ''response (200)''"
  by (simp add: responseContext_def showNat_200)

text \<open>
  Claim C1, as amended. The handler has returned, the headers have not been sent, response
  validation is enabled for the route, and \<open>responses[200]\<close> declares a schema that
  offers the mode the adapter selects (\<open>strict()\<close> when the strictness is true and the
  schema has a \<open>strict\<close> member, \<open>passthrough()\<close> otherwise) and that in this mode
  reports issues on the returned value (an empty object when nothing was returned). When
  \<open>NODE_ENV\<close> is \<open>development\<close>, the adapter sends status 500 with the body
  \<open>{error: "Response validation failed", message, details}\<close>. In any other environment
  the failure is only logged (when logging is enabled) and the unvalidated value is sent
  with the status set on the response, 200 by default. (\<open>res.send\<close> is taken not to
  throw on the body sent.)
\<close>

theorem response_validation_failure:
  assumes hp: "handlerPhase ac config req res = (Inr result, res1, logs)"
      and sent: "\<not> headersSent res1"
      and enabled: "isTrue (routeValidateResponse ac config)"
      and declared: "responseSchema200 config = Some s"
      and mode: "validationSchema (nullish (routeStrict config) (strict ac)) s = Inr safeParse"
      and data: "data = (if result = JUndefined then JObj [] else result)"
      and fails: "safeParse data = Inl issues"
      and cansend:
        "sendThrows e (if isDevelopment e
                       then validationBody ''Response validation failed''
                              ''Validation failed for response (200)''
                              (map (issueDetail data) issues)
                       else data) = None"
  shows "createValidatedHandler e ac config req res =
           (None,
            (if isDevelopment e
             then res1\<lparr> statusCode := Some 500, headersSent := True,
                        wire := wire res1 @
                          [Send (JObj [(''error'', JStr ''Response validation failed''),
                                       (''message'', JStr ''Validation failed for response (200)''),
                                       (''details'', JArr (map (issueDetail data) issues))])
                                500 [(''Content-Type'', ''application/json'')]] \<rparr>
             else res1\<lparr> statusCode := Some (statusOr200 res1), headersSent := True,
                        wire := wire res1 @
                          [Send data (statusOr200 res1)
                                [(''Content-Type'', ''application/json'')]] \<rparr>),
            logs @
            (if isTrue (logValidationErrors ac)
             then [WarnValidationFailed ''response (200)'' data (map (issueDetail data) issues)
                     (nullish (routeStrict config) (strict ac)),
                   ErrorResponseValidationFailed 200 data
                     (ValidationError ''Validation failed for response (200)''
                        (map (issueDetail data) issues))]
             else []))"
proof -
  let ?err = "ValidationError ''Validation failed for response (200)'' (map (issueDetail data) issues)"
  let ?w = "WarnValidationFailed ''response (200)'' data (map (issueDetail data) issues)
              (nullish (routeStrict config) (strict ac))"
  have vd: "validateData ac data s (responseContext 200) (routeStrict config) =
              (Inl ?err, if isTrue (logValidationErrors ac) then [?w] else [])"
    using mode fails by (simp add: validateData_def Let_def responseContext_200)
  have cr: "checkResponse e ac config data =
              (if isDevelopment e then Inl ?err else Inr data,
               if isTrue (logValidationErrors ac)
               then [?w, ErrorResponseValidationFailed 200 data ?err] else [])"
    using enabled declared vd by (simp add: checkResponse_def validateResponse_def Let_def)
  show ?thesis
  proof (cases "isDevelopment e")
    case True
    then have "tryBlock e ac config req res =
                 (Inl ?err, res1,
                  logs @ (if isTrue (logValidationErrors ac)
                          then [?w, ErrorResponseValidationFailed 200 data ?err] else []))"
      using hp sent cr data by (simp add: tryBlock_def sendPhase_def Let_def)
    then show ?thesis
      using True sent cansend
      by (simp add: createValidatedHandler_def catchBlock_def send_def jsonContentType_def
                    validationBody_def)
  next
    case False
    then show ?thesis
      using hp sent cr data cansend
      by (simp add: createValidatedHandler_def tryBlock_def sendPhase_def Let_def send_def
                    jsonContentType_def)
  qed
qed


lemma userRoute_handlerPhase:
  "handlerPhase (lenientApp e) userRoute johnRequest freshResponse =
     (Inr (JObj [(''name'', JStr ''John'')]), freshResponse, [])"
  by (simp add: handlerPhase_def validateInput_def schemaFor_def userRoute_def johnRequest_def
                orElse_def validateData_def validationSchema_def routeStrict_def lenientApp_def
                createAppConfig_def userSchema_def zodObject_def parseObject_def
                fieldIssues_def fieldOutput_def getProp_def zodString_def unknownFields_def
                Let_def)

lemma userSchema_rejects_john:
  "parseObject PassThroughUnknown [(''name'', zodString), (''email'', zodString)]
     (JObj [(''name'', JStr ''John'')])
   = Inl [\<lparr> issuePath = [Key ''email''], issueMessage = ''Expected string'' \<rparr>]"
  by (simp add: parseObject_def fieldIssues_def getProp_def zodString_def unknownFields_def
                Let_def)

lemma userRoute_mode:
  "validationSchema (nullish (routeStrict userRoute) (strict (lenientApp e))) userSchema
   = Inr (parseObject PassThroughUnknown [(''name'', zodString), (''email'', zodString)])"
  by (simp add: validationSchema_def routeStrict_def userRoute_def lenientApp_def
                createAppConfig_def userSchema_def zodObject_def)

theorem response_validation_failure_witness:
  "handlerPhase (lenientApp devEnv) userRoute johnRequest freshResponse =
     (Inr (JObj [(''name'', JStr ''John'')]), freshResponse, [])
   \<and> \<not> headersSent freshResponse
   \<and> isTrue (routeValidateResponse (lenientApp devEnv) userRoute)
   \<and> responseSchema200 userRoute = Some userSchema
   \<and> isDevelopment devEnv
   \<and> createValidatedHandler devEnv (lenientApp devEnv) userRoute johnRequest freshResponse =
       (None,
        freshResponse\<lparr> statusCode := Some 500, headersSent := True,
          wire := [Send (JObj [(''error'', JStr ''Response validation failed''),
                               (''message'', JStr ''Validation failed for response (200)''),
                               (''details'',
                                JArr [JObj [(''path'', JStr ''email''),
                                            (''message'', JStr ''Expected string''),
                                            (''value'', JObj [(''name'', JStr ''John'')])]])])
                        500 [(''Content-Type'', ''application/json'')]] \<rparr>,
        [])"
proof -
  let ?data = "JObj [(''name'', JStr ''John'')]"
  let ?issues = "[\<lparr> issuePath = [Key ''email''], issueMessage = ''Expected string'' \<rparr>]"
  have sent: "\<not> headersSent freshResponse"
    by (simp add: freshResponse_def)
  have enabled: "isTrue (routeValidateResponse (lenientApp devEnv) userRoute)"
    by (simp add: routeValidateResponse_def userRoute_def)
  have declared: "responseSchema200 userRoute = Some userSchema"
    by (simp add: responseSchema200_def userRoute_def)
  have data: "?data = (if ?data = JUndefined then JObj [] else ?data)"
    by simp
  have dev: "isDevelopment devEnv"
    by (simp add: isDevelopment_def devEnv_def)
  have cansend:
    "sendThrows devEnv (if isDevelopment devEnv
                        then validationBody ''Response validation failed''
                               ''Validation failed for response (200)''
                               (map (issueDetail ?data) ?issues)
                        else ?data) = None"
    by (simp add: devEnv_def)
  have quiet: "\<not> isTrue (logValidationErrors (lenientApp devEnv))"
    by (simp add: lenientApp_def createAppConfig_def)
  show ?thesis
    using response_validation_failure [OF userRoute_handlerPhase sent enabled declared
            userRoute_mode data userSchema_rejects_john cansend]
          userRoute_handlerPhase [of devEnv] sent enabled declared dev quiet
    by (simp add: freshResponse_def issueDetail_def)
qed

text \<open>
  The claim as stated fails in two ways. With \<open>NODE_ENV = production\<close>, response
  validation enabled and a handler result without the email that \<open>responses[200]\<close>
  requires, the client receives the unvalidated result with status 200. In development,
  with a \<open>responses[200]\<close> schema that has no \<open>passthrough\<close> member, selecting the mode
  throws a \<open>TypeError\<close> and the client receives 500 \<open>Internal Server Error\<close>, not
  \<open>Response validation failed\<close>.
\<close>

theorem response_validation_not_always_reported:
  "isTrue (routeValidateResponse (lenientApp prodEnv) userRoute)
   \<and> responseSchema200 userRoute = Some userSchema
   \<and> handlerPhase (lenientApp prodEnv) userRoute johnRequest freshResponse =
       (Inr (JObj [(''name'', JStr ''John'')]), freshResponse, [])
   \<and> fst (validateData (lenientApp prodEnv) (JObj [(''name'', JStr ''John'')]) userSchema
             (responseContext 200) (routeStrict userRoute)) =
       Inl (ValidationError ''Validation failed for response (200)''
              [JObj [(''path'', JStr ''email''), (''message'', JStr ''Expected string''),
                     (''value'', JObj [(''name'', JStr ''John'')])]])
   \<and> createValidatedHandler prodEnv (lenientApp prodEnv) userRoute johnRequest freshResponse =
       (None,
        freshResponse\<lparr> statusCode := Some 200, headersSent := True,
          wire := [Send (JObj [(''name'', JStr ''John'')]) 200
                        [(''Content-Type'', ''application/json'')]] \<rparr>,
        [])
   \<and> isDevelopment devEnv
   \<and> isTrue (routeValidateResponse (lenientApp devEnv) plainResponseRoute)
   \<and> responseSchema200 plainResponseRoute = Some plainSchema
   \<and> createValidatedHandler devEnv (lenientApp devEnv) plainResponseRoute emptyRequest
         freshResponse =
       (None,
        freshResponse\<lparr> statusCode := Some 500, headersSent := True,
          wire := [Send (JObj [(''error'', JStr ''Internal Server Error''),
                               (''message'', JStr ''schema.passthrough is not a function'')])
                        500 [(''Content-Type'', ''application/json'')]] \<rparr>,
        [])"
proof -
  have enabled: "isTrue (routeValidateResponse (lenientApp prodEnv) userRoute)"
    by (simp add: routeValidateResponse_def userRoute_def)
  have declared: "responseSchema200 userRoute = Some userSchema"
    by (simp add: responseSchema200_def userRoute_def)
  have quiet: "\<not> isTrue (logValidationErrors (lenientApp prodEnv))"
    by (simp add: lenientApp_def createAppConfig_def)
  have vd: "validateData (lenientApp prodEnv) (JObj [(''name'', JStr ''John'')]) userSchema
              (responseContext 200) (routeStrict userRoute) =
            (Inl (ValidationError ''Validation failed for response (200)''
                    [JObj [(''path'', JStr ''email''), (''message'', JStr ''Expected string''),
                           (''value'', JObj [(''name'', JStr ''John'')])]]), [])"
    using userRoute_mode [of prodEnv] userSchema_rejects_john quiet
    by (simp add: validateData_def Let_def responseContext_200 issueDetail_def)
  have prod: "\<not> isDevelopment prodEnv"
    by (simp add: isDevelopment_def prodEnv_def)
  have cr: "checkResponse prodEnv (lenientApp prodEnv) userRoute (JObj [(''name'', JStr ''John'')])
            = (Inr (JObj [(''name'', JStr ''John'')]), [])"
    using enabled declared vd prod quiet
    by (simp add: checkResponse_def validateResponse_def Let_def)
  have run: "createValidatedHandler prodEnv (lenientApp prodEnv) userRoute johnRequest freshResponse =
       (None,
        freshResponse\<lparr> statusCode := Some 200, headersSent := True,
          wire := [Send (JObj [(''name'', JStr ''John'')]) 200
                        [(''Content-Type'', ''application/json'')]] \<rparr>,
        [])"
    using userRoute_handlerPhase [of prodEnv] cr
    by (simp add: createValidatedHandler_def tryBlock_def sendPhase_def Let_def send_def
                  prodEnv_def freshResponse_def statusOr200_def jsonContentType_def)
  have dev: "isDevelopment devEnv"
    by (simp add: isDevelopment_def devEnv_def)
  have enabled': "isTrue (routeValidateResponse (lenientApp devEnv) plainResponseRoute)"
    by (simp add: routeValidateResponse_def plainResponseRoute_def)
  have declared': "responseSchema200 plainResponseRoute = Some plainSchema"
    by (simp add: responseSchema200_def plainResponseRoute_def)
  have run': "createValidatedHandler devEnv (lenientApp devEnv) plainResponseRoute emptyRequest
                freshResponse =
       (None,
        freshResponse\<lparr> statusCode := Some 500, headersSent := True,
          wire := [Send (JObj [(''error'', JStr ''Internal Server Error''),
                               (''message'', JStr ''schema.passthrough is not a function'')])
                        500 [(''Content-Type'', ''application/json'')]] \<rparr>,
        [])"
    by (simp add: adapter_eval emptyRequest_def plainResponseRoute_def plainSchema_def)
  show ?thesis
    using enabled declared userRoute_handlerPhase [of prodEnv] vd run dev enabled' declared' run'
    by simp
qed

subsection \<open>No second response\<close>

lemma catchBlock_headers_sent:
  "headersSent r \<Longrightarrow> catchBlock e err r = (None, r, [ErrorHeadersAlreadySent err])"
  by (simp add: catchBlock_def)

lemma catchBlock_wire:
  "\<exists>ws. wire (fst (snd (catchBlock e err r))) = wire r @ ws \<and> length ws \<le> 1
        \<and> (headersSent r \<longrightarrow> ws = [])"
  by (cases err)
     (auto simp: catchBlock_def send_def endResponse_def setHeader_def Let_def
           split: option.splits)

lemma catchBlock_one_write:
  "\<not> headersSent r \<Longrightarrow> \<forall>d. sendThrows e d = None \<Longrightarrow>
   \<exists>w. wire (fst (snd (catchBlock e err r))) = wire r @ [w]"
  by (cases err) (auto simp: catchBlock_def send_def)

lemma sendPhase_outcome:
  "sendPhase e ac config result r = (outcome, r', logs) \<Longrightarrow>
   (isl outcome \<longrightarrow> r' = r \<and> \<not> headersSent r)
   \<and> (\<not> isl outcome \<longrightarrow> (\<exists>ws. wire r' = wire r @ ws \<and> length ws \<le> 1
                               \<and> (headersSent r \<longrightarrow> ws = [])))"
  by (auto simp: sendPhase_def send_def Let_def split: if_splits prod.splits sum.splits option.splits)

lemma sendPhase_one_write:
  "sendPhase e ac config result r = (Inr u, r', logs) \<Longrightarrow> \<not> headersSent r \<Longrightarrow>
   \<exists>w. wire r' = wire r @ [w]"
  by (auto simp: sendPhase_def send_def Let_def split: if_splits prod.splits sum.splits option.splits)

lemma adapter_wire:
  assumes "handlerPhase ac config req res = (outcome, res1, logs)"
  shows "\<exists>ws. wire (fst (snd (createValidatedHandler e ac config req res))) = wire res1 @ ws
              \<and> length ws \<le> 1 \<and> (headersSent res1 \<longrightarrow> ws = [])"
proof (cases outcome)
  case (Inl err)
  then have "createValidatedHandler e ac config req res =
               (case catchBlock e err res1 of (escaped, res2, l2) \<Rightarrow> (escaped, res2, logs @ l2))"
    using assms by (simp add: createValidatedHandler_def tryBlock_def)
  then have "fst (snd (createValidatedHandler e ac config req res)) = fst (snd (catchBlock e err res1))"
    by (simp split: prod.splits)
  then show ?thesis
    using catchBlock_wire [of e err res1] by simp
next
  case (Inr result)
  obtain o2 r2 l2 where sp: "sendPhase e ac config result res1 = (o2, r2, l2)"
    by (cases "sendPhase e ac config result res1") auto
  show ?thesis
  proof (cases o2)
    case (Inl err)
    with sendPhase_outcome [OF sp] have same: "r2 = res1" "\<not> headersSent res1"
      by auto
    have "fst (snd (createValidatedHandler e ac config req res)) = fst (snd (catchBlock e err res1))"
      using assms Inr sp Inl same
      by (simp add: createValidatedHandler_def tryBlock_def split: prod.splits)
    then show ?thesis
      using catchBlock_wire [of e err res1] by simp
  next
    case (Inr u)
    have "fst (snd (createValidatedHandler e ac config req res)) = r2"
      using assms \<open>outcome = Inr result\<close> sp Inr
      by (simp add: createValidatedHandler_def tryBlock_def)
    then show ?thesis
      using sendPhase_outcome [OF sp] Inr by auto
  qed
qed

lemma adapter_one_write:
  assumes "handlerPhase ac config req res = (outcome, res1, logs)"
      and "\<not> headersSent res1"
      and "\<forall>d. sendThrows e d = None"
  shows "\<exists>w. wire (fst (snd (createValidatedHandler e ac config req res))) = wire res1 @ [w]"
proof (cases outcome)
  case (Inl err)
  then have "fst (snd (createValidatedHandler e ac config req res)) = fst (snd (catchBlock e err res1))"
    using assms(1) by (simp add: createValidatedHandler_def tryBlock_def split: prod.splits)
  then show ?thesis
    using catchBlock_one_write [OF assms(2,3), of err] by simp
next
  case (Inr result)
  obtain o2 r2 l2 where sp: "sendPhase e ac config result res1 = (o2, r2, l2)"
    by (cases "sendPhase e ac config result res1") auto
  show ?thesis
  proof (cases o2)
    case (Inl err)
    with sendPhase_outcome [OF sp] have same: "r2 = res1"
      by auto
    have "fst (snd (createValidatedHandler e ac config req res)) = fst (snd (catchBlock e err res1))"
      using assms(1) Inr sp Inl same
      by (simp add: createValidatedHandler_def tryBlock_def split: prod.splits)
    then show ?thesis
      using catchBlock_one_write [OF assms(2,3), of err] by simp
  next
    case (Inr u)
    have "fst (snd (createValidatedHandler e ac config req res)) = r2"
      using assms(1) \<open>outcome = Inr result\<close> sp Inr
      by (simp add: createValidatedHandler_def tryBlock_def)
    then show ?thesis
      using sendPhase_one_write [OF sp [unfolded Inr] assms(2)] by simp
  qed
qed

text \<open>
  Claim C2. The adapter does not write to a response whose headers are already sent.
  When the handler has returned and \<open>headersSent\<close> is true, the adapter leaves the
  response as the handler left it and logs nothing. When an error is caught and
  \<open>headersSent\<close> is true, the adapter leaves the response as it is and logs the
  anomaly. In every run the adapter adds at most one write to what the handler wrote, and
  none when the handler had sent the headers. Consequently, for a handler that either
  sends exactly one response itself (and so sets \<open>headersSent\<close>) or sends nothing, and
  a \<open>res.send\<close> that does not throw, exactly one response is sent per request.
\<close>

theorem no_write_after_headers_sent:
  "(handlerPhase ac config req res = (Inr result, res1, logs) \<and> headersSent res1
      \<longrightarrow> createValidatedHandler e ac config req res = (None, res1, logs))
   \<and> (handlerPhase ac config req res = (Inl err, res1, logs) \<and> headersSent res1
      \<longrightarrow> createValidatedHandler e ac config req res =
            (None, res1, logs @ [ErrorHeadersAlreadySent err]))
   \<and> (handlerPhase ac config req res = (outcome, res1, logs)
      \<longrightarrow> (\<exists>ws. wire (fst (snd (createValidatedHandler e ac config req res))) = wire res1 @ ws
                \<and> length ws \<le> 1 \<and> (headersSent res1 \<longrightarrow> ws = [])))
   \<and> (handlerPhase ac config req res = (outcome, res1, logs)
        \<and> (\<forall>d. sendThrows e d = None)
        \<and> (if headersSent res1 then length (wire res1) = 1 else wire res1 = [])
      \<longrightarrow> length (wire (fst (snd (createValidatedHandler e ac config req res)))) = 1)"
proof (intro conjI impI)
  assume "handlerPhase ac config req res = (Inr result, res1, logs) \<and> headersSent res1"
  then show "createValidatedHandler e ac config req res = (None, res1, logs)"
    by (simp add: createValidatedHandler_def tryBlock_def sendPhase_def)
next
  assume "handlerPhase ac config req res = (Inl err, res1, logs) \<and> headersSent res1"
  then show "createValidatedHandler e ac config req res =
               (None, res1, logs @ [ErrorHeadersAlreadySent err])"
    by (simp add: createValidatedHandler_def tryBlock_def catchBlock_headers_sent)
next
  assume "handlerPhase ac config req res = (outcome, res1, logs)"
  then show "\<exists>ws. wire (fst (snd (createValidatedHandler e ac config req res))) = wire res1 @ ws
                \<and> length ws \<le> 1 \<and> (headersSent res1 \<longrightarrow> ws = [])"
    by (rule adapter_wire)
next
  assume a: "handlerPhase ac config req res = (outcome, res1, logs)
        \<and> (\<forall>d. sendThrows e d = None)
        \<and> (if headersSent res1 then length (wire res1) = 1 else wire res1 = [])"
  show "length (wire (fst (snd (createValidatedHandler e ac config req res)))) = 1"
  proof (cases "headersSent res1")
    case True
    with a adapter_wire [of ac config req res outcome res1 logs e] show ?thesis
      by auto
  next
    case False
    with a adapter_one_write [of ac config req res outcome res1 logs e] show ?thesis
      by auto
  qed
qed


theorem no_write_after_headers_sent_witness:
  "handlerPhase (lenientApp devEnv) selfSendingRoute emptyRequest freshResponse =
     (Inr JUndefined, notFoundResponse, [])
   \<and> headersSent notFoundResponse
   \<and> createValidatedHandler devEnv (lenientApp devEnv) selfSendingRoute emptyRequest freshResponse =
       (None, notFoundResponse, [])
   \<and> length (wire (fst (snd (createValidatedHandler devEnv (lenientApp devEnv) selfSendingRoute
                                emptyRequest freshResponse)))) = 1
   \<and> handlerPhase (lenientApp devEnv) sendThenThrowRoute emptyRequest freshResponse =
       (Inl (Error ''late failure''), okResponse, [])
   \<and> headersSent okResponse
   \<and> createValidatedHandler devEnv (lenientApp devEnv) sendThenThrowRoute emptyRequest freshResponse =
       (None, okResponse, [ErrorHeadersAlreadySent (Error ''late failure'')])"
proof -
  have h1: "handlerPhase (lenientApp devEnv) selfSendingRoute emptyRequest freshResponse =
              (Inr JUndefined, notFoundResponse, [])"
    by (simp add: handlerPhase_def validateInput_def schemaFor_def selfSendingRoute_def
                  freshResponse_def notFoundResponse_def)
  have s1: "headersSent notFoundResponse"
    by (simp add: notFoundResponse_def)
  have h2: "handlerPhase (lenientApp devEnv) sendThenThrowRoute emptyRequest freshResponse =
              (Inl (Error ''late failure''), okResponse, [])"
    by (simp add: handlerPhase_def validateInput_def schemaFor_def sendThenThrowRoute_def
                  freshResponse_def okResponse_def)
  have s2: "headersSent okResponse"
    by (simp add: okResponse_def)
  have total: "\<forall>d. sendThrows devEnv d = None"
    by (simp add: devEnv_def)
  have one: "if headersSent notFoundResponse then length (wire notFoundResponse) = 1
             else wire notFoundResponse = []"
    by (simp add: notFoundResponse_def)
  note a = no_write_after_headers_sent
             [of "lenientApp devEnv" selfSendingRoute emptyRequest freshResponse JUndefined
                 notFoundResponse "[]" devEnv "Error ''late failure''" "Inr JUndefined"]
  note b = no_write_after_headers_sent
             [of "lenientApp devEnv" sendThenThrowRoute emptyRequest freshResponse JUndefined
                 okResponse "[]" devEnv "Error ''late failure''" "Inl (Error ''late failure'')"]
  from a h1 s1 total one
  have r1: "createValidatedHandler devEnv (lenientApp devEnv) selfSendingRoute emptyRequest
              freshResponse = (None, notFoundResponse, [])"
   and r2: "length (wire (fst (snd (createValidatedHandler devEnv (lenientApp devEnv)
              selfSendingRoute emptyRequest freshResponse)))) = 1"
    by blast+
  from b h2 s2
  have r3: "createValidatedHandler devEnv (lenientApp devEnv) sendThenThrowRoute emptyRequest
              freshResponse = (None, okResponse, [ErrorHeadersAlreadySent (Error ''late failure'')])"
    by simp
  show ?thesis
    using h1 s1 r1 r2 h2 s2 r3 by blast
qed

subsection \<open>The success path\<close>

text \<open>
  Claim C5, as amended. The query, the params and the body are validated in that order:
  the first failure ends the phase with that error, the response untouched and the
  handler not called; when all three pass, the handler is called with the three results.
  An input with a schema is validated by \<open>validateData\<close>; an input without a schema is
  passed on unvalidated as it is, except that a falsy value (\<open>undefined\<close>, \<open>null\<close>,
  \<open>false\<close>, \<open>0\<close>, the empty string) becomes an empty object, and the same
  replacement is made before validating. When the handler has returned without sending
  the headers, an empty object stands in for a missing return value, and, the response
  check passing with \<open>out\<close>, that value is sent with the status code already set on the
  response (200 when it is undefined or zero) and \<open>Content-Type: application/json\<close>.
  The response check returns the value unchanged when response validation is off or no
  schema is declared for status 200. (\<open>res.send\<close> is taken not to throw on the value.)
\<close>

theorem success_path:
  "(validateInput ac (schemaFor query config) (reqQuery req) ''query'' (routeStrict config)
        = (Inl err, l)
      \<longrightarrow> handlerPhase ac config req res = (Inl err, res, l))
   \<and> (validateInput ac (schemaFor query config) (reqQuery req) ''query'' (routeStrict config)
        = (Inr q, lq)
       \<and> validateInput ac (schemaFor params config) (reqParams req) ''params'' (routeStrict config)
        = (Inl err, l)
      \<longrightarrow> handlerPhase ac config req res = (Inl err, res, lq @ l))
   \<and> (validateInput ac (schemaFor query config) (reqQuery req) ''query'' (routeStrict config)
        = (Inr q, lq)
       \<and> validateInput ac (schemaFor params config) (reqParams req) ''params'' (routeStrict config)
        = (Inr p, lp)
       \<and> validateInput ac (schemaFor body config) (reqBody req) ''body'' (routeStrict config)
        = (Inl err, l)
      \<longrightarrow> handlerPhase ac config req res = (Inl err, res, lq @ lp @ l))
   \<and> (validateInput ac (schemaFor query config) (reqQuery req) ''query'' (routeStrict config)
        = (Inr q, lq)
       \<and> validateInput ac (schemaFor params config) (reqParams req) ''params'' (routeStrict config)
        = (Inr p, lp)
       \<and> validateInput ac (schemaFor body config) (reqBody req) ''body'' (routeStrict config)
        = (Inr b, lb)
       \<and> handler config \<lparr> ctxQuery = q, ctxParams = p, ctxBody = b, ctxReq = req \<rparr> res
        = (outcome, res')
      \<longrightarrow> handlerPhase ac config req res = (outcome, res', []))
   \<and> validateInput ac None raw context strictArg
        = (Inr (if truthy raw then raw else JObj []), [])
   \<and> validateInput ac (Some s) raw context strictArg
        = validateData ac (if truthy raw then raw else JObj []) s context strictArg
   \<and> (handlerPhase ac config req res = (Inr result, res', logs)
       \<and> \<not> headersSent res'
       \<and> checkResponse e ac config (if result = JUndefined then JObj [] else result)
            = (Inr out, lr)
       \<and> sendThrows e out = None
      \<longrightarrow> createValidatedHandler e ac config req res =
            (None,
             res'\<lparr> statusCode := Some (statusOr200 res'), headersSent := True,
                   wire := wire res' @
                     [Send out (statusOr200 res') [(''Content-Type'', ''application/json'')]] \<rparr>,
             logs @ lr))
   \<and> (\<not> isTrue (routeValidateResponse ac config) \<or> responseSchema200 config = None
      \<longrightarrow> checkResponse e ac config d = (Inr d, []))
   \<and> statusOr200 (res'\<lparr> statusCode := None \<rparr>) = 200
   \<and> statusOr200 (res'\<lparr> statusCode := Some (Suc c) \<rparr>) = Suc c"
proof (intro conjI impI)
  assume "validateInput ac (schemaFor query config) (reqQuery req) ''query'' (routeStrict config)
            = (Inl err, l)"
  then show "handlerPhase ac config req res = (Inl err, res, l)"
    by (simp add: handlerPhase_def)
next
  assume "validateInput ac (schemaFor query config) (reqQuery req) ''query'' (routeStrict config)
            = (Inr q, lq)
          \<and> validateInput ac (schemaFor params config) (reqParams req) ''params'' (routeStrict config)
            = (Inl err, l)"
  then show "handlerPhase ac config req res = (Inl err, res, lq @ l)"
    by (simp add: handlerPhase_def)
next
  assume "validateInput ac (schemaFor query config) (reqQuery req) ''query'' (routeStrict config)
            = (Inr q, lq)
          \<and> validateInput ac (schemaFor params config) (reqParams req) ''params'' (routeStrict config)
            = (Inr p, lp)
          \<and> validateInput ac (schemaFor body config) (reqBody req) ''body'' (routeStrict config)
            = (Inl err, l)"
  then show "handlerPhase ac config req res = (Inl err, res, lq @ lp @ l)"
    by (simp add: handlerPhase_def)
next
  assume a: "validateInput ac (schemaFor query config) (reqQuery req) ''query'' (routeStrict config)
            = (Inr q, lq)
          \<and> validateInput ac (schemaFor params config) (reqParams req) ''params'' (routeStrict config)
            = (Inr p, lp)
          \<and> validateInput ac (schemaFor body config) (reqBody req) ''body'' (routeStrict config)
            = (Inr b, lb)
          \<and> handler config \<lparr> ctxQuery = q, ctxParams = p, ctxBody = b, ctxReq = req \<rparr> res
            = (outcome, res')"
  then have "lq = []" "lp = []" "lb = []"
    using validateInput_ok_quiet by blast+
  with a show "handlerPhase ac config req res = (outcome, res', [])"
    by (simp add: handlerPhase_def)
next
  show "validateInput ac None raw context strictArg
          = (Inr (if truthy raw then raw else JObj []), [])"
    by (simp add: validateInput_def orElse_def)
next
  show "validateInput ac (Some s) raw context strictArg
          = validateData ac (if truthy raw then raw else JObj []) s context strictArg"
    by (simp add: validateInput_def orElse_def)
next
  assume "handlerPhase ac config req res = (Inr result, res', logs)
          \<and> \<not> headersSent res'
          \<and> checkResponse e ac config (if result = JUndefined then JObj [] else result)
               = (Inr out, lr)
          \<and> sendThrows e out = None"
  then show "createValidatedHandler e ac config req res =
            (None,
             res'\<lparr> statusCode := Some (statusOr200 res'), headersSent := True,
                   wire := wire res' @
                     [Send out (statusOr200 res') [(''Content-Type'', ''application/json'')]] \<rparr>,
             logs @ lr)"
    by (simp add: createValidatedHandler_def tryBlock_def sendPhase_def Let_def send_def
                  jsonContentType_def)
next
  assume "\<not> isTrue (routeValidateResponse ac config) \<or> responseSchema200 config = None"
  then show "checkResponse e ac config d = (Inr d, [])"
    by (auto simp: checkResponse_def)
next
  show "statusOr200 (res'\<lparr> statusCode := None \<rparr>) = 200"
    by (simp add: statusOr200_def)
next
  show "statusOr200 (res'\<lparr> statusCode := Some (Suc c) \<rparr>) = Suc c"
    by (simp add: statusOr200_def)
qed

lemmas item_eval =
  validateInput_def schemaFor_def itemRoute_def itemRequest_def orElse_def validateData_def
  validationSchema_def routeStrict_def lenientApp_def createAppConfig_def userSchema_def
  zodObject_def parseObject_def fieldIssues_def fieldOutput_def getProp_def zodString_def
  unknownFields_def issueDetail_def goodQuery_def goodParams_def goodBody_def Let_def

lemma item_query_ok:
  "validateInput (lenientApp devEnv) (schemaFor query itemRoute)
     (reqQuery (itemRequest goodQuery p b)) ''query'' (routeStrict itemRoute)
   = (Inr goodQuery, [])"
  by (simp add: item_eval)

lemma item_query_bad:
  "validateInput (lenientApp devEnv) (schemaFor query itemRoute)
     (reqQuery (itemRequest JUndefined p b)) ''query'' (routeStrict itemRoute)
   = (Inl (ValidationError ''Validation failed for query''
             [JObj [(''path'', JStr ''page''), (''message'', JStr ''Expected string''),
                    (''value'', JObj [])]]), [])"
  by (simp add: item_eval)

lemma item_params_ok:
  "validateInput (lenientApp devEnv) (schemaFor params itemRoute)
     (reqParams (itemRequest q goodParams b)) ''params'' (routeStrict itemRoute)
   = (Inr goodParams, [])"
  by (simp add: item_eval)

lemma item_params_bad:
  "validateInput (lenientApp devEnv) (schemaFor params itemRoute)
     (reqParams (itemRequest q JUndefined b)) ''params'' (routeStrict itemRoute)
   = (Inl (ValidationError ''Validation failed for params''
             [JObj [(''path'', JStr ''id''), (''message'', JStr ''Expected string''),
                    (''value'', JObj [])]]), [])"
  by (simp add: item_eval)

lemma item_body_ok:
  "validateInput (lenientApp devEnv) (schemaFor body itemRoute)
     (reqBody (itemRequest q p goodBody)) ''body'' (routeStrict itemRoute)
   = (Inr goodBody, [])"
  by (simp add: item_eval)

lemma item_body_bad:
  "validateInput (lenientApp devEnv) (schemaFor body itemRoute)
     (reqBody (itemRequest q p JUndefined)) ''body'' (routeStrict itemRoute)
   = (Inl (ValidationError ''Validation failed for body''
             [JObj [(''path'', JStr ''name''), (''message'', JStr ''Expected string''),
                    (''value'', JObj [])],
              JObj [(''path'', JStr ''email''), (''message'', JStr ''Expected string''),
                    (''value'', JObj [])]]), [])"
  by (simp add: item_eval)

theorem success_path_witness:
  "handlerPhase (lenientApp devEnv) itemRoute (itemRequest JUndefined JUndefined JUndefined)
      freshResponse
     = (Inl (ValidationError ''Validation failed for query''
               [JObj [(''path'', JStr ''page''), (''message'', JStr ''Expected string''),
                      (''value'', JObj [])]]), freshResponse, [])
   \<and> handlerPhase (lenientApp devEnv) itemRoute (itemRequest goodQuery JUndefined JUndefined)
        freshResponse
     = (Inl (ValidationError ''Validation failed for params''
               [JObj [(''path'', JStr ''id''), (''message'', JStr ''Expected string''),
                      (''value'', JObj [])]]), freshResponse, [])
   \<and> handlerPhase (lenientApp devEnv) itemRoute (itemRequest goodQuery goodParams JUndefined)
        freshResponse
     = (Inl (ValidationError ''Validation failed for body''
               [JObj [(''path'', JStr ''name''), (''message'', JStr ''Expected string''),
                      (''value'', JObj [])],
                JObj [(''path'', JStr ''email''), (''message'', JStr ''Expected string''),
                      (''value'', JObj [])]]), freshResponse, [])
   \<and> handlerPhase (lenientApp devEnv) itemRoute (itemRequest goodQuery goodParams goodBody)
        freshResponse
     = (Inr JUndefined, freshResponse\<lparr> statusCode := Some 201 \<rparr>, [])
   \<and> createValidatedHandler devEnv (lenientApp devEnv) itemRoute
        (itemRequest goodQuery goodParams goodBody) freshResponse
     = (None,
        freshResponse\<lparr> statusCode := Some 201, headersSent := True,
          wire := [Send (JObj []) 201 [(''Content-Type'', ''application/json'')]] \<rparr>,
        [])"
proof -
  let ?ac = "lenientApp devEnv"
  let ?r201 = "freshResponse\<lparr> statusCode := Some 201 \<rparr>"
  let ?good = "itemRequest goodQuery goodParams goodBody"
  have hd: "handler itemRoute \<lparr> ctxQuery = goodQuery, ctxParams = goodParams, ctxBody = goodBody,
                                 ctxReq = ?good \<rparr> freshResponse = (Inr JUndefined, ?r201)"
    by (simp add: itemRoute_def)
  have w1: "handlerPhase ?ac itemRoute (itemRequest JUndefined JUndefined JUndefined) freshResponse
     = (Inl (ValidationError ''Validation failed for query''
               [JObj [(''path'', JStr ''page''), (''message'', JStr ''Expected string''),
                      (''value'', JObj [])]]), freshResponse, [])"
    using success_path [where ac = ?ac and config = itemRoute and res = freshResponse
                          and req = "itemRequest JUndefined JUndefined JUndefined"
                          and err = "ValidationError ''Validation failed for query''
                                       [JObj [(''path'', JStr ''page''),
                                              (''message'', JStr ''Expected string''),
                                              (''value'', JObj [])]]"
                          and l = "[]"]
          item_query_bad [of JUndefined JUndefined]
    by simp
  have w2: "handlerPhase ?ac itemRoute (itemRequest goodQuery JUndefined JUndefined) freshResponse
     = (Inl (ValidationError ''Validation failed for params''
               [JObj [(''path'', JStr ''id''), (''message'', JStr ''Expected string''),
                      (''value'', JObj [])]]), freshResponse, [])"
    using success_path [where ac = ?ac and config = itemRoute and res = freshResponse
                          and req = "itemRequest goodQuery JUndefined JUndefined"
                          and q = goodQuery and lq = "[]"
                          and err = "ValidationError ''Validation failed for params''
                                       [JObj [(''path'', JStr ''id''),
                                              (''message'', JStr ''Expected string''),
                                              (''value'', JObj [])]]"
                          and l = "[]"]
          item_query_ok [of JUndefined JUndefined] item_params_bad [of goodQuery JUndefined]
    by simp
  have w3: "handlerPhase ?ac itemRoute (itemRequest goodQuery goodParams JUndefined) freshResponse
     = (Inl (ValidationError ''Validation failed for body''
               [JObj [(''path'', JStr ''name''), (''message'', JStr ''Expected string''),
                      (''value'', JObj [])],
                JObj [(''path'', JStr ''email''), (''message'', JStr ''Expected string''),
                      (''value'', JObj [])]]), freshResponse, [])"
    using success_path [where ac = ?ac and config = itemRoute and res = freshResponse
                          and req = "itemRequest goodQuery goodParams JUndefined"
                          and q = goodQuery and lq = "[]" and p = goodParams and lp = "[]"
                          and err = "ValidationError ''Validation failed for body''
                                       [JObj [(''path'', JStr ''name''),
                                              (''message'', JStr ''Expected string''),
                                              (''value'', JObj [])],
                                        JObj [(''path'', JStr ''email''),
                                              (''message'', JStr ''Expected string''),
                                              (''value'', JObj [])]]"
                          and l = "[]"]
          item_query_ok [of goodParams JUndefined] item_params_ok [of goodQuery JUndefined]
          item_body_bad [of goodQuery goodParams]
    by simp
  note sp = success_path [where ac = ?ac and config = itemRoute and res = freshResponse
                            and req = ?good
                            and q = goodQuery and lq = "[]" and p = goodParams and lp = "[]"
                            and b = goodBody and lb = "[]"
                            and outcome = "Inr JUndefined" and res' = ?r201
                            and result = JUndefined and logs = "[]" and e = devEnv
                            and out = "JObj []" and lr = "[]" and d = "JObj []"]
  have w4: "handlerPhase ?ac itemRoute ?good freshResponse = (Inr JUndefined, ?r201, [])"
    using sp item_query_ok [of goodParams goodBody] item_params_ok [of goodQuery goodBody]
          item_body_ok [of goodQuery goodParams] hd
    by simp
  have nosent: "\<not> headersSent ?r201"
    by (simp add: freshResponse_def)
  have novalidation: "responseSchema200 itemRoute = None"
    by (simp add: responseSchema200_def itemRoute_def)
  have cansend: "sendThrows devEnv (JObj []) = None"
    by (simp add: devEnv_def)
  from sp novalidation have cr: "checkResponse devEnv ?ac itemRoute (JObj []) = (Inr (JObj []), [])"
    by simp
  from sp w4 nosent cr cansend
  have "createValidatedHandler devEnv ?ac itemRoute ?good freshResponse
        = (None,
           ?r201\<lparr> statusCode := Some (statusOr200 ?r201), headersSent := True,
             wire := wire ?r201 @
               [Send (JObj []) (statusOr200 ?r201) [(''Content-Type'', ''application/json'')]] \<rparr>,
           [] @ [])"
    by simp
  then have w5: "createValidatedHandler devEnv ?ac itemRoute ?good freshResponse
     = (None,
        freshResponse\<lparr> statusCode := Some 201, headersSent := True,
          wire := [Send (JObj []) 201 [(''Content-Type'', ''application/json'')]] \<rparr>,
        [])"
    by (simp add: statusOr200_def freshResponse_def)
  show ?thesis
    using w1 w2 w3 w4 w5 by simp
qed

text \<open>
  The claim as stated fails for a falsy value that is not absent: a route without a
  body schema, called with the JSON body \<open>false\<close>, hands an empty object to its handler
  (which returns what it was given), not \<open>false\<close>.
\<close>

theorem falsy_body_replaced:
  "schemaFor body echoRoute = None
   \<and> reqBody falseBodyRequest = JBool False
   \<and> handlerPhase (lenientApp devEnv) echoRoute falseBodyRequest freshResponse =
       (Inr (JObj []), freshResponse, [])
   \<and> createValidatedHandler devEnv (lenientApp devEnv) echoRoute falseBodyRequest freshResponse =
       (None,
        freshResponse\<lparr> statusCode := Some 200, headersSent := True,
          wire := [Send (JObj []) 200 [(''Content-Type'', ''application/json'')]] \<rparr>,
        [])"
  by (simp add: schemaFor_def echoRoute_def falseBodyRequest_def handlerPhase_def
                validateInput_def orElse_def createValidatedHandler_def tryBlock_def
                sendPhase_def checkResponse_def routeValidateResponse_def responseSchema200_def
                lenientApp_def createAppConfig_def send_def devEnv_def statusOr200_def
                freshResponse_def jsonContentType_def Let_def)

subsection \<open>Strictness\<close>




















subsection \<open>OpenAPI parameters and path keys\<close>























subsection \<open>Routes without a schema\<close>

lemma processRoute_dom:
  "processRoute conv route index pathsObj = Inr (pathsObj', warnings) \<Longrightarrow>
   dom pathsObj' = dom pathsObj \<union> set_option (documentedKey route)"
  by (auto simp: processRoute_def documentedKey_def Let_def
           split: option.splits prod.splits if_splits)

lemma processRoutes_dom:
  "processRoutes conv index rs acc = Inr (pathsObj', warnings) \<Longrightarrow>
   dom pathsObj' = dom (fst acc) \<union> set (List.map_filter documentedKey rs)"
proof (induction rs arbitrary: index acc)
  case Nil
  then show ?case by simp
next
  case (Cons route rest)
  from Cons.prems obtain step where
    step: "processRoute conv route index (fst acc) = Inr step"
    and rest: "processRoutes conv (Suc index) rest (fst step, snd acc @ snd step) =
                 Inr (pathsObj', warnings)"
    by (auto split: sum.splits)
  have "dom (fst step) = dom (fst acc) \<union> set_option (documentedKey route)"
    using processRoute_dom [of conv route index "fst acc" "fst step" "snd step"] step by simp
  moreover have "dom pathsObj' = dom (fst step) \<union> set (List.map_filter documentedKey rest)"
    using Cons.IH [OF rest] by simp
  ultimately show ?case
    by (auto split: option.splits)
qed

lemma processRoutes_no_schema:
  "\<forall>route \<in> set rs. routeSchema route = None \<Longrightarrow>
   processRoutes conv index rs acc = Inr acc"
  by (induction rs arbitrary: index) (simp_all add: processRoute_def)

text \<open>
  Claim C9. A route registered without a schema contributes nothing to the generated
  document: processing it leaves the \<open>paths\<close> mapping exactly as it was (no path key,
  no operation, no default 200 response) and logs nothing. The path keys of the generated
  document are exactly the rewritten paths of the routes that have a schema; when no
  route has a schema, generation succeeds with an empty \<open>paths\<close> mapping.
\<close>

theorem schemaless_routes_not_documented:
  "(routeSchema route = None \<longrightarrow> processRoute conv route index pathsObj = Inr (pathsObj, []))
   \<and> (generateOpenApiSpec conv app options = Inr (doc, warnings)
      \<longrightarrow> dom (paths doc) = set (List.map_filter documentedKey (getRoutes app)))
   \<and> (routeSchema route = None \<longrightarrow> documentedKey route = None)
   \<and> ((\<forall>route \<in> set (getRoutes app). routeSchema route = None)
      \<longrightarrow> (\<exists>doc. generateOpenApiSpec conv app options = Inr (doc, [])
               \<and> paths doc = Map.empty))"
proof (intro conjI impI)
  assume "routeSchema route = None"
  then show "processRoute conv route index pathsObj = Inr (pathsObj, [])"
    by (simp add: processRoute_def)
next
  assume "generateOpenApiSpec conv app options = Inr (doc, warnings)"
  then obtain fin where
    "processRoutes conv 0 (getRoutes app) (Map.empty, []) = Inr fin" "paths doc = fst fin"
    by (auto simp: generateOpenApiSpec_def split: sum.splits)
  then show "dom (paths doc) = set (List.map_filter documentedKey (getRoutes app))"
    using processRoutes_dom [of conv 0 "getRoutes app" "(Map.empty, [])" "fst fin" "snd fin"]
    by simp
next
  assume "routeSchema route = None"
  then show "documentedKey route = None"
    by (simp add: documentedKey_def)
next
  assume "\<forall>route \<in> set (getRoutes app). routeSchema route = None"
  then have "processRoutes conv 0 (getRoutes app) (Map.empty, []) = Inr (Map.empty, [])"
    by (rule processRoutes_no_schema)
  then show "\<exists>doc. generateOpenApiSpec conv app options = Inr (doc, []) \<and> paths doc = Map.empty"
    by (simp add: generateOpenApiSpec_def)
qed


lemma toUpperCase_get: "toUpperCase ''get'' = ''GET''"
  by code_simp

lemma toUpperCase_post: "toUpperCase ''post'' = ''POST''"
  by code_simp

lemma healthApp_routes:
  "getRoutes healthApp =
     [\<lparr> routeMethod = ''GET'', routePath = Some ''/health'', routeSchema = None,
        routeMetadata = None \<rparr>]"
  by (simp add: healthApp_def appGet_def registerRoute_def getRoutes_def emptyApp_def
                toUpperCase_get echoRoute_def)

lemma usersApp_routes:
  "getRoutes usersApp =
     [\<lparr> routeMethod = ''GET'', routePath = Some ''/health'', routeSchema = None,
        routeMetadata = None \<rparr>,
      \<lparr> routeMethod = ''POST'', routePath = Some ''/users/:id'', routeSchema = schema userRoute,
        routeMetadata = None \<rparr>]"
  by (simp add: usersApp_def appGet_def appPost_def registerRoute_def getRoutes_def emptyApp_def
                toUpperCase_get toUpperCase_post echoRoute_def userRoute_def)

theorem schemaless_routes_not_documented_witness:
  "(\<exists>doc warnings.
      generateOpenApiSpec searchConverter usersApp defaultOptions = Inr (doc, warnings)
      \<and> dom (paths doc) = {''/users/{id}''})
   \<and> (\<exists>doc. generateOpenApiSpec searchConverter healthApp defaultOptions = Inr (doc, [])
            \<and> paths doc = Map.empty)
   \<and> processRoute searchConverter
        \<lparr> routeMethod = ''GET'', routePath = Some ''/health'', routeSchema = None,
          routeMetadata = None \<rparr> 0 Map.empty = Inr (Map.empty, [])"
proof -
  let ?health = "\<lparr> routeMethod = ''GET'', routePath = Some ''/health'', routeSchema = None,
                    routeMetadata = None \<rparr>"
  have none: "routeSchema ?health = None"
    by simp
  have w3: "processRoute searchConverter ?health 0 Map.empty = Inr (Map.empty, [])"
    using schemaless_routes_not_documented
            [where route = ?health and conv = searchConverter and index = 0
               and pathsObj = Map.empty] none
    by blast
  have all: "\<forall>route \<in> set (getRoutes healthApp). routeSchema route = None"
    by (simp add: healthApp_routes)
  have w2: "\<exists>doc. generateOpenApiSpec searchConverter healthApp defaultOptions = Inr (doc, [])
                 \<and> paths doc = Map.empty"
    using schemaless_routes_not_documented
            [where app = healthApp and conv = searchConverter and options = defaultOptions] all
    by blast
  have "\<exists>doc warnings.
          generateOpenApiSpec searchConverter usersApp defaultOptions = Inr (doc, warnings)"
    by (simp add: generateOpenApiSpec_def usersApp_routes processRoute_def userRoute_def Let_def
             split: prod.splits)
  then obtain doc warnings where
    gen: "generateOpenApiSpec searchConverter usersApp defaultOptions = Inr (doc, warnings)"
    by blast
  have keys: "set (List.map_filter documentedKey (getRoutes usersApp)) = {''/users/{id}''}"
    by (simp add: usersApp_routes documentedKey_def userRoute_def notSlash_def)
  have "dom (paths doc) = {''/users/{id}''}"
    using schemaless_routes_not_documented
            [where app = usersApp and conv = searchConverter and options = defaultOptions
               and doc = doc and warnings = warnings] gen keys
    by simp
  with gen have w1: "\<exists>doc warnings.
      generateOpenApiSpec searchConverter usersApp defaultOptions = Inr (doc, warnings)
      \<and> dom (paths doc) = {''/users/{id}''}"
    by blast
  show ?thesis
    using w1 w2 w3 by blast
qed

end
